theory Spec2Isabelle
  imports Complex_Main
begin

section \<open>Data model of the 3D viewer's region store\<close>

text \<open>
  The development follows the class \<open>Model3DViewer\<close>. JavaScript numbers are
  modelled as real numbers, three-dimensional vectors as triples of them, and strings as
  lists of characters, one character per code unit in the range 0..255. Optional fields
  (\<open>field?: T\<close>) are options; \<open>None\<close> stands for \<open>undefined\<close>.
\<close>

record Vector3 =
  vx :: real
  vy :: real
  vz :: real

datatype ShapeType = Cube | Sphere | NoneShape

datatype Severity = High | Medium | Low

datatype DecalTextureId = DecalNone | Heavy | Moderate | Light

record DefectEntry =
  d_category :: string
  d_id :: string
  d_defect :: string
  d_majorDefectCategory :: string
  d_description :: string
  d_visualPatterns :: string

record EvidenceItem =
  ev_id :: string
  ev_storageId :: string
  ev_name :: string
  ev_mimeType :: string
  ev_addedAt :: string

text \<open>A decal mesh is an engine object; only its identity matters here, so it is a handle.\<close>

type_synonym Mesh = nat

record SavedHighlightRegion =
  r_id :: string
  r_position :: Vector3
  r_size :: real
  r_type :: ShapeType
  r_severity :: Severity
  r_label :: string
  r_defectData :: "DefectEntry option"
  r_cameraPosition :: "Vector3 option"
  r_cameraTarget :: "Vector3 option"
  r_normal :: "Vector3 option"
  r_decalTextureId :: "DecalTextureId option"
  r_decalMesh :: "Mesh option"
  r_notes :: "string option"
  r_evidence :: "EvidenceItem list option"

record LabelPosition =
  lp_id :: string
  lp_text :: string
  lp_x :: real
  lp_y :: real
  lp_visible :: bool
  lp_color :: string
  lp_severity :: Severity

fun SEVERITY_COLORS :: "Severity \<Rightarrow> string" where
  "SEVERITY_COLORS High = ''#e53935''"
| "SEVERITY_COLORS Medium = ''#ff9800''"
| "SEVERITY_COLORS Low = ''#43a047''"

text \<open>
  The viewer's fields, as far as the region store, the label projector and the occlusion
  step read or write them. \<open>camera\<close> is the map of \<open>Vector3.project(camera)\<close> from
  world space to normalized device coordinates, \<open>None\<close> while the camera is not set
  up. \<open>gl\<close> and \<open>occlusionProgram\<close> say whether the WebGL 2 context and the
  occlusion program exist; \<open>highlightShape\<close> holds the preview mesh's position,
  \<open>None\<close> while there is no preview mesh. \<open>sceneDecals\<close> are the decal meshes
  added to the scene, \<open>disposedMeshes\<close> those whose geometry and material were
  disposed. \<open>glBegun\<close> logs the region index of every \<open>gl.beginQuery\<close>.
  The three counters number the UUIDs, meshes and queries the environment has handed
  out. The shader uniforms, the GPU objects behind a query (\<open>gl.deleteQuery\<close>) and
  the never-read \<open>cachedVisibility\<close> map are left out: no operation below reads
  them. An \<open>async\<close> operation is modelled as running to completion.
\<close>

record Model3DViewer =
  camera :: "(Vector3 \<Rightarrow> Vector3) option"
  dimsWidth :: real
  dimsHeight :: real
  currentModel :: bool
  gl :: bool
  occlusionProgram :: bool
  highlightShape :: "Vector3 option"
  shapeType :: ShapeType
  shapeVisible :: bool
  shapeBaseSize :: real
  shapeSizePercent :: real
  savedRegions :: "SavedHighlightRegion list"
  hiddenRegionIds :: "string set"
  currentSeverity :: Severity
  isCameraMoving :: bool
  smoothCameraMode :: bool
  occlusionFrameCounter :: nat
  needsLabelUpdate :: bool
  cachedLabelPositions :: "LabelPosition list"
  occlusionQueries :: "nat \<rightharpoonup> nat"
  occlusionResults :: "nat \<rightharpoonup> bool"
  sceneDecals :: "Mesh list"
  disposedMeshes :: "Mesh list"
  glBegun :: "nat list"
  uuidsDrawn :: nat
  meshesCreated :: nat
  queriesCreated :: nat

text \<open>
  What the environment answers: the values of \<open>crypto.randomUUID()\<close> in the order
  of the calls, whether \<open>gl.createQuery()\<close> yields a query for a region index, the
  two query parameters of a query, the mesh a raycast through a position hits, and
  whether texture loading and decal geometry generation succeed for given arguments.
\<close>

record Env =
  randomUUID :: "nat \<Rightarrow> string"
  createQueryOk :: "nat \<Rightarrow> bool"
  queryResultAvailable :: "nat \<Rightarrow> bool"
  queryResult :: "nat \<Rightarrow> nat"
  raycastMesh :: "Vector3 \<Rightarrow> nat option"
  decalGeometryOk :: "Vector3 \<Rightarrow> Vector3 \<Rightarrow> real \<Rightarrow> DecalTextureId \<Rightarrow> nat \<Rightarrow> bool"

text \<open>
  The viewer after construction, for a canvas of the given size: the field initialisers
  of the class, with the WebGL 2 context and the occlusion program present or absent
  together.
\<close>

definition initialViewer :: "real \<Rightarrow> real \<Rightarrow> bool \<Rightarrow> Model3DViewer" where
  "initialViewer w h webgl2 =
     \<lparr> camera = None, dimsWidth = w, dimsHeight = h, currentModel = False,
       gl = webgl2, occlusionProgram = webgl2, highlightShape = None,
       shapeType = Cube, shapeVisible = False, shapeBaseSize = 0.05,
       shapeSizePercent = 100, savedRegions = [], hiddenRegionIds = {},
       currentSeverity = Medium, isCameraMoving = False, smoothCameraMode = False,
       occlusionFrameCounter = 0, needsLabelUpdate = True, cachedLabelPositions = [],
       occlusionQueries = Map.empty, occlusionResults = Map.empty,
       sceneDecals = [], disposedMeshes = [], glBegun = [],
       uuidsDrawn = 0, meshesCreated = 0, queriesCreated = 0 \<rparr>"

section \<open>Vector arithmetic\<close>

definition sub :: "Vector3 \<Rightarrow> Vector3 \<Rightarrow> Vector3" where
  "sub a b = \<lparr> vx = vx a - vx b, vy = vy a - vy b, vz = vz a - vz b \<rparr>"

definition length3 :: "Vector3 \<Rightarrow> real" where
  "length3 a = sqrt (vx a * vx a + vy a * vy a + vz a * vz a)"

section \<open>findRegionAtPoint\<close>

text \<open>
  The loop over \<open>savedRegions\<close>: \<open>continue\<close> is the recursive call on the rest
  of the list, \<open>return region.id\<close> ends the scan.
\<close>

fun findRegionAtPoint_loop ::
  "string set \<Rightarrow> SavedHighlightRegion list \<Rightarrow> Vector3 \<Rightarrow> string option" where
  "findRegionAtPoint_loop hidden [] point = None"
| "findRegionAtPoint_loop hidden (region # rest) point =
     (if r_id region \<in> hidden then findRegionAtPoint_loop hidden rest point
      else if r_type region = NoneShape then findRegionAtPoint_loop hidden rest point
      else
        (let diff = sub point (r_position region);
             halfSize = r_size region * 0.5
         in if r_type region = Cube then
              (if \<bar>vx diff\<bar> < halfSize \<and> \<bar>vy diff\<bar> < halfSize \<and> \<bar>vz diff\<bar> < halfSize
               then Some (r_id region)
               else findRegionAtPoint_loop hidden rest point)
            else
              (if length3 diff < halfSize
               then Some (r_id region)
               else findRegionAtPoint_loop hidden rest point)))"

definition findRegionAtPoint :: "Model3DViewer \<Rightarrow> Vector3 \<Rightarrow> string option" where
  "findRegionAtPoint v point =
     findRegionAtPoint_loop (hiddenRegionIds v) (savedRegions v) point"

text \<open>
  The containment test in the words of the specification: for a cube every coordinate of
  point minus position is below half the size in absolute value, for a sphere the
  Euclidean distance is below half the size. A region is a candidate when it is not
  hidden, not point-shaped, and contains the point.
\<close>

definition regionContains :: "SavedHighlightRegion \<Rightarrow> Vector3 \<Rightarrow> bool" where
  "regionContains r p =
     (case r_type r of
        Cube \<Rightarrow> \<bar>vx p - vx (r_position r)\<bar> < r_size r / 2
              \<and> \<bar>vy p - vy (r_position r)\<bar> < r_size r / 2
              \<and> \<bar>vz p - vz (r_position r)\<bar> < r_size r / 2
      | Sphere \<Rightarrow> sqrt ((vx p - vx (r_position r))\<^sup>2 + (vy p - vy (r_position r))\<^sup>2
                      + (vz p - vz (r_position r))\<^sup>2) < r_size r / 2
      | NoneShape \<Rightarrow> False)"

definition candidate :: "Model3DViewer \<Rightarrow> Vector3 \<Rightarrow> SavedHighlightRegion \<Rightarrow> bool" where
  "candidate v p r = (r_id r \<notin> hiddenRegionIds v \<and> r_type r \<noteq> NoneShape \<and> regionContains r p)"

text \<open>A region record with the mandatory fields given and every optional field absent.\<close>

definition plainRegion ::
  "string \<Rightarrow> Vector3 \<Rightarrow> real \<Rightarrow> ShapeType \<Rightarrow> Severity \<Rightarrow> string \<Rightarrow> SavedHighlightRegion" where
  "plainRegion i p s t sev l =
     \<lparr> r_id = i, r_position = p, r_size = s, r_type = t, r_severity = sev, r_label = l,
       r_defectData = None, r_cameraPosition = None, r_cameraTarget = None,
       r_normal = None, r_decalTextureId = None, r_decalMesh = None,
       r_notes = None, r_evidence = None \<rparr>"

definition vec :: "real \<Rightarrow> real \<Rightarrow> real \<Rightarrow> Vector3" where
  "vec a b c = \<lparr> vx = a, vy = b, vz = c \<rparr>"

section \<open>Ids, sizes and trimming\<close>

text \<open>\<open>generateId\<close> is \<open>crypto.randomUUID()\<close>: the next value of the environment.\<close>

definition generateId :: "Env \<Rightarrow> Model3DViewer \<Rightarrow> string \<times> Model3DViewer" where
  "generateId env v = (randomUUID env (uuidsDrawn v), v\<lparr>uuidsDrawn := Suc (uuidsDrawn v)\<rparr>)"

definition getCurrentShapeSize :: "Model3DViewer \<Rightarrow> real" where
  "getCurrentShapeSize v = shapeBaseSize v * (shapeSizePercent v / 100)"

definition setShapeSizePercent :: "Model3DViewer \<Rightarrow> real \<Rightarrow> Model3DViewer" where
  "setShapeSizePercent v percent = v\<lparr>shapeSizePercent := max 1 (min 300 percent)\<rparr>"

text \<open>
  \<open>String.prototype.trim\<close> strips white space and line terminators from both ends.
  Of the code units it strips, those below 256 are tab, line feed, vertical tab, form
  feed, carriage return, space and no-break space.
\<close>

definition isWhiteSpace :: "char \<Rightarrow> bool" where
  "isWhiteSpace c = (c \<in> set [CHR 0x09, CHR 0x0A, CHR 0x0B, CHR 0x0C, CHR 0x0D, CHR 0x20, CHR 0xA0])"

definition trim :: "string \<Rightarrow> string" where
  "trim s = rev (dropWhile isWhiteSpace (rev (dropWhile isWhiteSpace s)))"

definition invalidateLabelPositions :: "Model3DViewer \<Rightarrow> Model3DViewer" where
  "invalidateLabelPositions v = v\<lparr>needsLabelUpdate := True\<rparr>"

section \<open>Decal meshes\<close>

text \<open>
  \<open>createDecalMesh\<close> yields no mesh for the texture id "none", or when the texture
  fails to load, no mesh is found under the target object, or the geometry generation
  throws; otherwise a new mesh object.
\<close>

definition createDecalMesh ::
  "Env \<Rightarrow> Model3DViewer \<Rightarrow> Vector3 \<Rightarrow> Vector3 \<Rightarrow> real \<Rightarrow> DecalTextureId \<Rightarrow> nat
     \<Rightarrow> Mesh option \<times> Model3DViewer" where
  "createDecalMesh env v position normal size' textureId targetObject =
     (if textureId = DecalNone then (None, v)
      else if decalGeometryOk env position normal size' textureId targetObject
      then (Some (meshesCreated v), v\<lparr>meshesCreated := Suc (meshesCreated v)\<rparr>)
      else (None, v))"

definition findMeshAtPosition :: "Env \<Rightarrow> Model3DViewer \<Rightarrow> Vector3 \<Rightarrow> nat option" where
  "findMeshAtPosition env v position =
     (if \<not> currentModel v \<or> camera v = None then None else raycastMesh env position)"

text \<open>Removing a decal from the scene and disposing its geometry and material.\<close>

definition disposeDecal :: "Model3DViewer \<Rightarrow> Mesh \<Rightarrow> Model3DViewer" where
  "disposeDecal v m =
     v\<lparr>sceneDecals := removeAll m (sceneDecals v), disposedMeshes := disposedMeshes v @ [m]\<rparr>"

text \<open>
  \<open>updateDecalMesh\<close> mutates the region object it is given; the model returns the
  region after the call together with the viewer.
\<close>

definition updateDecalMesh ::
  "Env \<Rightarrow> Model3DViewer \<Rightarrow> SavedHighlightRegion \<Rightarrow> SavedHighlightRegion \<times> Model3DViewer" where
  "updateDecalMesh env v region =
     (let (region1, v1) =
            (case r_decalMesh region of
               Some m \<Rightarrow> (region\<lparr>r_decalMesh := None\<rparr>, disposeDecal v m)
             | None \<Rightarrow> (region, v))
      in case (r_decalTextureId region1, r_normal region1) of
           (Some textureId, Some normal) \<Rightarrow>
             (if textureId \<noteq> DecalNone then
                (case findMeshAtPosition env v1 (r_position region1) of
                   Some targetMesh \<Rightarrow>
                     (case createDecalMesh env v1 (r_position region1) normal
                             (r_size region1) textureId targetMesh of
                        (Some decalMesh, v2) \<Rightarrow>
                          (region1\<lparr>r_decalMesh := Some decalMesh\<rparr>,
                           v2\<lparr>sceneDecals := sceneDecals v2 @ [decalMesh]\<rparr>)
                      | (None, v2) \<Rightarrow> (region1, v2))
                 | None \<Rightarrow> (region1, v1))
              else (region1, v1))
         | _ \<Rightarrow> (region1, v1))"

section \<open>saveCurrentRegion and getRegions\<close>

definition saveCurrentRegion ::
  "Env \<Rightarrow> Model3DViewer \<Rightarrow> string \<Rightarrow> DefectEntry option \<Rightarrow> Vector3 option \<Rightarrow> Vector3 option
     \<Rightarrow> Vector3 option \<Rightarrow> DecalTextureId option \<Rightarrow> nat option
     \<Rightarrow> string option \<times> Model3DViewer" where
  "saveCurrentRegion env v label defectData cameraPosition cameraTarget normal
       decalTextureId targetObject =
     (case highlightShape v of
        None \<Rightarrow> (None, v)
      | Some shapePosition \<Rightarrow>
          if \<not> shapeVisible v then (None, v)
          else if label = [] \<or> trim label = [] then (None, v)
          else
            (let (newId, v1) = generateId env v;
                 region = \<lparr> r_id = newId, r_position = shapePosition,
                            r_size = getCurrentShapeSize v1, r_type = shapeType v1,
                            r_severity = currentSeverity v1, r_label = trim label,
                            r_defectData = defectData, r_cameraPosition = cameraPosition,
                            r_cameraTarget = cameraTarget, r_normal = normal,
                            r_decalTextureId = decalTextureId, r_decalMesh = None,
                            r_notes = None, r_evidence = None \<rparr>;
                 (region2, v2) =
                   (case (decalTextureId, normal, targetObject) of
                      (Some textureId, Some n, Some target) \<Rightarrow>
                        (if textureId \<noteq> DecalNone then
                           (case createDecalMesh env v1 (r_position region) n (r_size region)
                                   textureId target of
                              (Some decalMesh, v') \<Rightarrow>
                                (region\<lparr>r_decalMesh := Some decalMesh\<rparr>,
                                 v'\<lparr>sceneDecals := sceneDecals v' @ [decalMesh]\<rparr>)
                            | (None, v') \<Rightarrow> (region, v'))
                         else (region, v1))
                    | _ \<Rightarrow> (region, v1))
             in (Some (r_id region2),
                 invalidateLabelPositions (v2\<lparr>savedRegions := savedRegions v2 @ [region2]\<rparr>))))"

record RegionInfo =
  g_id :: string
  g_label :: string
  g_severity :: Severity
  g_type :: ShapeType
  g_size :: real
  g_defectData :: "DefectEntry option"
  g_decalTextureId :: "DecalTextureId option"
  g_notes :: "string option"
  g_evidence :: "EvidenceItem list option"

definition getRegions :: "Model3DViewer \<Rightarrow> RegionInfo list" where
  "getRegions v =
     map (\<lambda>r. \<lparr> g_id = r_id r, g_label = r_label r, g_severity = r_severity r,
                g_type = r_type r, g_size = r_size r, g_defectData = r_defectData r,
                g_decalTextureId = r_decalTextureId r, g_notes = r_notes r,
                g_evidence = r_evidence r \<rparr>) (savedRegions v)"

section \<open>Export and import\<close>

text \<open>
  An import payload is parsed JSON, and \<open>importRegions\<close> checks the label, severity,
  type, size and position of every region at run time. Those five fields are therefore
  untyped JavaScript values; the fields that are copied without a check have their
  declared types, and every entry of the regions array is an object.
\<close>

datatype JsValue =
    JUndefined
  | JNull
  | JBoolean bool
  | JNumber real
  | JString string
  | JArray "JsValue list"
  | JObject "(string \<times> JsValue) list"

fun truthy :: "JsValue \<Rightarrow> bool" where
  "truthy JUndefined = False"
| "truthy JNull = False"
| "truthy (JBoolean b) = b"
| "truthy (JNumber n) = (n \<noteq> 0)"
| "truthy (JString s) = (s \<noteq> [])"
| "truthy (JArray xs) = True"
| "truthy (JObject fs) = True"

fun typeof :: "JsValue \<Rightarrow> string" where
  "typeof JUndefined = ''undefined''"
| "typeof JNull = ''object''"
| "typeof (JBoolean b) = ''boolean''"
| "typeof (JNumber n) = ''number''"
| "typeof (JString s) = ''string''"
| "typeof (JArray xs) = ''object''"
| "typeof (JObject fs) = ''object''"

text \<open>
  Reading a named property of a truthy value: an object yields the stored value or
  \<open>undefined\<close>, every other value has no such property.
\<close>

fun getProp :: "JsValue \<Rightarrow> string \<Rightarrow> JsValue" where
  "getProp (JObject fs) k = (case map_of fs k of Some x \<Rightarrow> x | None \<Rightarrow> JUndefined)"
| "getProp _ k = JUndefined"

record ExportedRegion =
  x_id :: string
  x_label :: JsValue
  x_severity :: JsValue
  x_type :: JsValue
  x_size :: JsValue
  x_position :: JsValue
  x_defectData :: "DefectEntry option"
  x_cameraPosition :: "Vector3 option"
  x_cameraTarget :: "Vector3 option"
  x_normal :: "Vector3 option"
  x_decalTextureId :: "DecalTextureId option"
  x_notes :: "string option"
  x_evidence :: "EvidenceItem list option"

text \<open>\<open>x_regions\<close> is \<open>None\<close> when the payload's \<open>regions\<close> is not an array.\<close>

record RegionsExportData =
  x_version :: JsValue
  x_exportedAt :: string
  x_regions :: "ExportedRegion list option"

fun severityString :: "Severity \<Rightarrow> string" where
  "severityString High = ''high''"
| "severityString Medium = ''medium''"
| "severityString Low = ''low''"

fun shapeString :: "ShapeType \<Rightarrow> string" where
  "shapeString Cube = ''cube''"
| "shapeString Sphere = ''sphere''"
| "shapeString NoneShape = ''none''"

definition xyz :: "Vector3 \<Rightarrow> JsValue" where
  "xyz p = JObject [(''x'', JNumber (vx p)), (''y'', JNumber (vy p)), (''z'', JNumber (vz p))]"

text \<open>
  An optional field is copied when it is present: the objects and the non-empty strings
  that these fields hold are all truthy.
\<close>

definition exportRegion :: "SavedHighlightRegion \<Rightarrow> ExportedRegion" where
  "exportRegion r =
     \<lparr> x_id = r_id r, x_label = JString (r_label r),
       x_severity = JString (severityString (r_severity r)),
       x_type = JString (shapeString (r_type r)), x_size = JNumber (r_size r),
       x_position = xyz (r_position r),
       x_defectData = r_defectData r, x_cameraPosition = r_cameraPosition r,
       x_cameraTarget = r_cameraTarget r, x_normal = r_normal r,
       x_decalTextureId = r_decalTextureId r, x_notes = r_notes r,
       x_evidence = r_evidence r \<rparr>"

text \<open>\<open>now\<close> is the value of \<open>new Date().toISOString()\<close>.\<close>

definition exportRegions :: "string \<Rightarrow> Model3DViewer \<Rightarrow> RegionsExportData" where
  "exportRegions now v =
     \<lparr> x_version = JNumber 1, x_exportedAt = now,
       x_regions = Some (map exportRegion (savedRegions v)) \<rparr>"

datatype ImportError =
    UnsupportedVersion
  | RegionsNotArray
  | LabelRequired
  | InvalidSeverity
  | InvalidType
  | InvalidSize
  | InvalidPosition

definition validSeverities :: "JsValue list" where
  "validSeverities = [JString ''high'', JString ''medium'', JString ''low'']"

definition validTypes :: "JsValue list" where
  "validTypes = [JString ''cube'', JString ''sphere'', JString ''none'']"

text \<open>The validation loop: the first failing check throws.\<close>

fun validateRegions :: "ExportedRegion list \<Rightarrow> ImportError option" where
  "validateRegions [] = None"
| "validateRegions (region # rest) =
     (if \<not> truthy (x_label region) \<or> typeof (x_label region) \<noteq> ''string''
      then Some LabelRequired
      else if x_severity region \<notin> set validSeverities then Some InvalidSeverity
      else if x_type region \<notin> set validTypes then Some InvalidType
      else if typeof (x_size region) \<noteq> ''number''
              \<or> (case x_size region of JNumber n \<Rightarrow> n \<le> 0 | _ \<Rightarrow> False)
      then Some InvalidSize
      else if \<not> truthy (x_position region)
              \<or> typeof (getProp (x_position region) ''x'') \<noteq> ''number''
              \<or> typeof (getProp (x_position region) ''y'') \<noteq> ''number''
              \<or> typeof (getProp (x_position region) ''z'') \<noteq> ''number''
      then Some InvalidPosition
      else validateRegions rest)"

text \<open>
  The typed reading of a value that has passed validation. The last case of each
  function is never reached for a validated value.
\<close>

fun asString :: "JsValue \<Rightarrow> string" where
  "asString (JString s) = s"
| "asString _ = []"

fun asNumber :: "JsValue \<Rightarrow> real" where
  "asNumber (JNumber n) = n"
| "asNumber _ = 0"

definition asSeverity :: "JsValue \<Rightarrow> Severity" where
  "asSeverity x =
     (if x = JString ''high'' then High else if x = JString ''medium'' then Medium else Low)"

definition asShapeType :: "JsValue \<Rightarrow> ShapeType" where
  "asShapeType x =
     (if x = JString ''cube'' then Cube else if x = JString ''sphere'' then Sphere
      else NoneShape)"

definition importRegion :: "string \<Rightarrow> ExportedRegion \<Rightarrow> SavedHighlightRegion" where
  "importRegion newId region =
     \<lparr> r_id = newId,
       r_position = \<lparr> vx = asNumber (getProp (x_position region) ''x''),
                      vy = asNumber (getProp (x_position region) ''y''),
                      vz = asNumber (getProp (x_position region) ''z'') \<rparr>,
       r_size = asNumber (x_size region), r_type = asShapeType (x_type region),
       r_severity = asSeverity (x_severity region), r_label = asString (x_label region),
       r_defectData = x_defectData region, r_cameraPosition = x_cameraPosition region,
       r_cameraTarget = x_cameraTarget region, r_normal = x_normal region,
       r_decalTextureId = x_decalTextureId region, r_decalMesh = None,
       r_notes = x_notes region, r_evidence = x_evidence region \<rparr>"

text \<open>The loop that builds a region with a new id for every payload entry and pushes it.\<close>

fun importLoop :: "Env \<Rightarrow> Model3DViewer \<Rightarrow> ExportedRegion list \<Rightarrow> Model3DViewer" where
  "importLoop env v [] = v"
| "importLoop env v (region # rest) =
     (let (newId, v1) = generateId env v
      in importLoop env (v1\<lparr>savedRegions := savedRegions v1 @ [importRegion newId region]\<rparr>)
           rest)"

text \<open>
  The loop over all saved regions that recreates decals: its body, and the loop, which
  returns the regions as the calls of \<open>updateDecalMesh\<close> leave them.
\<close>

definition recreateStep ::
  "Env \<Rightarrow> Model3DViewer \<Rightarrow> SavedHighlightRegion \<Rightarrow> SavedHighlightRegion \<times> Model3DViewer" where
  "recreateStep env v region =
     (case (r_decalTextureId region, r_normal region) of
        (Some textureId, Some n) \<Rightarrow>
          (if textureId \<noteq> DecalNone then updateDecalMesh env v region else (region, v))
      | _ \<Rightarrow> (region, v))"

fun recreateDecals ::
  "Env \<Rightarrow> Model3DViewer \<Rightarrow> SavedHighlightRegion list
     \<Rightarrow> SavedHighlightRegion list \<times> Model3DViewer" where
  "recreateDecals env v [] = ([], v)"
| "recreateDecals env v (region # rest) =
     (let (region1, v1) = recreateStep env v region;
          (rest1, v2) = recreateDecals env v1 rest
      in (region1 # rest1, v2))"

definition clearOcclusionState :: "Model3DViewer \<Rightarrow> Model3DViewer" where
  "clearOcclusionState v =
     (if gl v then v\<lparr>occlusionQueries := Map.empty, occlusionResults := Map.empty\<rparr> else v)"

definition importRegions ::
  "Env \<Rightarrow> Model3DViewer \<Rightarrow> RegionsExportData \<Rightarrow> bool \<Rightarrow> (ImportError + nat) \<times> Model3DViewer" where
  "importRegions env v data' replace =
     (if x_version data' \<noteq> JNumber 1 then (Inl UnsupportedVersion, v)
      else case x_regions data' of
        None \<Rightarrow> (Inl RegionsNotArray, v)
      | Some regions \<Rightarrow>
         (case validateRegions regions of
            Some err \<Rightarrow> (Inl err, v)
          | None \<Rightarrow>
             (let v1 = (if replace then clearOcclusionState (v\<lparr>savedRegions := []\<rparr>) else v);
                  v2 = importLoop env v1 regions;
                  (regions3, v3) = recreateDecals env v2 (savedRegions v2)
              in (Inr (length regions),
                  invalidateLabelPositions (v3\<lparr>savedRegions := regions3\<rparr>)))))"

section \<open>updateRegion and deleteRegion\<close>

fun findIndex :: "('a \<Rightarrow> bool) \<Rightarrow> 'a list \<Rightarrow> nat option" where
  "findIndex P [] = None"
| "findIndex P (x # xs) =
     (if P x then Some 0 else (case findIndex P xs of None \<Rightarrow> None | Some i \<Rightarrow> Some (Suc i)))"

text \<open>The patch object of \<open>updateRegion\<close>; an absent field is \<open>None\<close>.\<close>

record RegionUpdates =
  u_label :: "string option"
  u_severity :: "Severity option"
  u_type :: "ShapeType option"
  u_size :: "real option"
  u_defectData :: "DefectEntry option"
  u_cameraPosition :: "Vector3 option"
  u_cameraTarget :: "Vector3 option"
  u_decalTextureId :: "DecalTextureId option"
  u_notes :: "string option"
  u_evidence :: "EvidenceItem list option"

definition noUpdates :: RegionUpdates where
  "noUpdates =
     \<lparr> u_label = None, u_severity = None, u_type = None, u_size = None,
       u_defectData = None, u_cameraPosition = None, u_cameraTarget = None,
       u_decalTextureId = None, u_notes = None, u_evidence = None \<rparr>"

definition updateRegion ::
  "Env \<Rightarrow> Model3DViewer \<Rightarrow> string \<Rightarrow> RegionUpdates \<Rightarrow> bool \<times> Model3DViewer" where
  "updateRegion env v rid updates =
     (case findIndex (\<lambda>r. r_id r = rid) (savedRegions v) of
        None \<Rightarrow> (False, v)
      | Some index \<Rightarrow>
         (let region = savedRegions v ! index;
              region1 = (case u_label updates of
                           Some l \<Rightarrow> region\<lparr>r_label := l\<rparr> | None \<Rightarrow> region);
              region2 = (case u_severity updates of
                           Some s \<Rightarrow> region1\<lparr>r_severity := s\<rparr> | None \<Rightarrow> region1);
              region3 = (case u_type updates of
                           Some t \<Rightarrow> region2\<lparr>r_type := t\<rparr> | None \<Rightarrow> region2);
              (region4, v4) =
                (case u_size updates of
                   Some s \<Rightarrow>
                     (let sized = region3\<lparr>r_size := s\<rparr>
                      in if r_decalMesh sized \<noteq> None
                            \<or> (case r_decalTextureId sized of
                                  Some t \<Rightarrow> t \<noteq> DecalNone | None \<Rightarrow> False)
                         then updateDecalMesh env v sized
                         else (sized, v))
                 | None \<Rightarrow> (region3, v));
              (region5, v5) =
                (case u_decalTextureId updates of
                   Some t \<Rightarrow> updateDecalMesh env v4 (region4\<lparr>r_decalTextureId := Some t\<rparr>)
                 | None \<Rightarrow> (region4, v4));
              region6 = (case u_defectData updates of
                           Some d \<Rightarrow> region5\<lparr>r_defectData := Some d\<rparr> | None \<Rightarrow> region5);
              region7 = (case u_cameraPosition updates of
                           Some p \<Rightarrow> region6\<lparr>r_cameraPosition := Some p\<rparr> | None \<Rightarrow> region6);
              region8 = (case u_cameraTarget updates of
                           Some p \<Rightarrow> region7\<lparr>r_cameraTarget := Some p\<rparr> | None \<Rightarrow> region7);
              region9 = (case u_notes updates of
                           Some n \<Rightarrow> region8\<lparr>r_notes := Some n\<rparr> | None \<Rightarrow> region8);
              region10 = (case u_evidence updates of
                            Some e \<Rightarrow> region9\<lparr>r_evidence := Some e\<rparr> | None \<Rightarrow> region9)
          in (True,
              invalidateLabelPositions
                (v5\<lparr>savedRegions := (savedRegions v5)[index := region10]\<rparr>))))"

text \<open>\<open>splice(index, 1)\<close> removes the element at \<open>index\<close>.\<close>

definition splice1 :: "nat \<Rightarrow> 'a list \<Rightarrow> 'a list" where
  "splice1 index xs = take index xs @ drop (Suc index) xs"

definition deleteRegion :: "Model3DViewer \<Rightarrow> string \<Rightarrow> bool \<times> Model3DViewer" where
  "deleteRegion v rid =
     (case findIndex (\<lambda>r. r_id r = rid) (savedRegions v) of
        None \<Rightarrow> (False, v)
      | Some index \<Rightarrow>
         (let region = savedRegions v ! index;
              v1 = (case r_decalMesh region of
                      Some m \<Rightarrow> disposeDecal v m | None \<Rightarrow> v);
              v2 = v1\<lparr>savedRegions := splice1 index (savedRegions v1)\<rparr>;
              v3 = clearOcclusionState v2
          in (True, invalidateLabelPositions v3)))"

section \<open>Label positions\<close>

definition project3DToScreen :: "Model3DViewer \<Rightarrow> Vector3 \<Rightarrow> (real \<times> real) option" where
  "project3DToScreen v worldPoint =
     (case camera v of
        None \<Rightarrow> None
      | Some project \<Rightarrow>
         (let t = project worldPoint
          in if vz t > 1 \<or> vx t < - 1 \<or> vx t > 1 \<or> vy t < - 1 \<or> vy t > 1 then None
             else Some (((vx t + 1) / 2) * dimsWidth v, ((- vy t + 1) / 2) * dimsHeight v)))"

definition checkPointVisibility :: "Model3DViewer \<Rightarrow> nat \<Rightarrow> bool" where
  "checkPointVisibility v regionIndex =
     (case occlusionResults v regionIndex of Some visible \<Rightarrow> visible | None \<Rightarrow> True)"

definition newLabelPosition :: "Model3DViewer \<Rightarrow> nat \<Rightarrow> SavedHighlightRegion \<Rightarrow> LabelPosition" where
  "newLabelPosition v i region =
     (let screenPos = project3DToScreen v (r_position region);
          isVisible = (screenPos \<noteq> None \<and> checkPointVisibility v i)
      in \<lparr> lp_id = r_id region, lp_text = r_label region,
           lp_x = (case screenPos of Some (x, y) \<Rightarrow> x | None \<Rightarrow> 0),
           lp_y = (case screenPos of Some (x, y) \<Rightarrow> y | None \<Rightarrow> 0),
           lp_visible = isVisible, lp_color = SEVERITY_COLORS (r_severity region),
           lp_severity = r_severity region \<rparr>)"

definition differsFromCached :: "LabelPosition list \<Rightarrow> LabelPosition \<Rightarrow> bool" where
  "differsFromCached cachedList newPos =
     (case find (\<lambda>p. lp_id p = lp_id newPos) cachedList of
        None \<Rightarrow> True
      | Some cached \<Rightarrow>
          lp_x cached \<noteq> lp_x newPos \<or> lp_y cached \<noteq> lp_y newPos
          \<or> lp_visible cached \<noteq> lp_visible newPos \<or> lp_text cached \<noteq> lp_text newPos
          \<or> lp_color cached \<noteq> lp_color newPos \<or> lp_severity cached \<noteq> lp_severity newPos)"

text \<open>
  The loop of \<open>getLabelPositions\<close> from index \<open>i\<close> on, over the regions not yet
  visited, with the list \<open>positions\<close> and the flag \<open>hasChanges\<close> built so far.
\<close>

fun labelLoop ::
  "Model3DViewer \<Rightarrow> nat \<Rightarrow> SavedHighlightRegion list \<Rightarrow> LabelPosition list \<Rightarrow> bool
     \<Rightarrow> LabelPosition list \<times> bool" where
  "labelLoop v i [] positions hasChanges = (positions, hasChanges)"
| "labelLoop v i (region # rest) positions hasChanges =
     (if r_id region \<in> hiddenRegionIds v then labelLoop v (Suc i) rest positions hasChanges
      else
        (let newPos = newLabelPosition v i region
         in labelLoop v (Suc i) rest (positions @ [newPos])
              (hasChanges \<or> differsFromCached (cachedLabelPositions v) newPos)))"

definition getLabelPositions :: "Model3DViewer \<Rightarrow> LabelPosition list option \<times> Model3DViewer" where
  "getLabelPositions v =
     (if \<not> needsLabelUpdate v \<and> length (savedRegions v) = length (cachedLabelPositions v)
      then (None, v)
      else
        (let (positions, hasChanges) = labelLoop v 0 (savedRegions v) [] False;
             v1 = v\<lparr>needsLabelUpdate := False\<rparr>
         in if hasChanges \<or> length positions \<noteq> length (cachedLabelPositions v1)
            then (Some positions, v1\<lparr>cachedLabelPositions := positions\<rparr>)
            else (None, v1)))"

section \<open>Occlusion queries\<close>

definition OCCLUSION_THROTTLE_FRAMES :: nat where
  "OCCLUSION_THROTTLE_FRAMES = 3"

text \<open>
  The body of the loop of \<open>runOcclusionQueries\<close> for the region at index \<open>i\<close>,
  and the loop from index \<open>i\<close> on. A \<open>continue\<close> ends the body. A pass that
  reaches \<open>gl.beginQuery\<close> appends the index to \<open>glBegun\<close>.
\<close>

definition queryStep :: "Env \<Rightarrow> Model3DViewer \<Rightarrow> nat \<Rightarrow> Model3DViewer" where
  "queryStep env v i =
     (let queryWasRunning = (occlusionQueries v i \<noteq> None);
          v1 = (if \<not> queryWasRunning \<and> createQueryOk env i
                then v\<lparr>occlusionQueries := (occlusionQueries v)(i \<mapsto> queriesCreated v),
                       queriesCreated := Suc (queriesCreated v)\<rparr>
                else v)
      in case occlusionQueries v1 i of
           None \<Rightarrow> v1
         | Some query \<Rightarrow>
            (let hasResult = (occlusionResults v1 i \<noteq> None)
             in if queryWasRunning \<and> \<not> queryResultAvailable env query then v1
                else
                  (let v2 =
                         (if queryWasRunning then
                            (let passed = queryResult env query;
                                 newVisible = (passed > 0);
                                 v' = (if hasResult
                                       then (if occlusionResults v1 i \<noteq> Some newVisible
                                             then v1\<lparr>needsLabelUpdate := True\<rparr> else v1)
                                       else v1\<lparr>needsLabelUpdate := True\<rparr>)
                             in v'\<lparr>occlusionResults := (occlusionResults v')(i \<mapsto> newVisible)\<rparr>)
                          else v1)
                   in v2\<lparr>glBegun := glBegun v2 @ [i]\<rparr>)))"

fun queryLoop :: "Env \<Rightarrow> Model3DViewer \<Rightarrow> nat \<Rightarrow> SavedHighlightRegion list \<Rightarrow> Model3DViewer" where
  "queryLoop env v i [] = v"
| "queryLoop env v i (region # rest) = queryLoop env (queryStep env v i) (Suc i) rest"

definition runOcclusionQueries :: "Env \<Rightarrow> Model3DViewer \<Rightarrow> Model3DViewer" where
  "runOcclusionQueries env v =
     (if \<not> gl v \<or> \<not> occlusionProgram v \<or> camera v = None \<or> savedRegions v = [] then v
      else if smoothCameraMode v then
        (if isCameraMoving v then v else queryLoop env v 0 (savedRegions v))
      else
        (if \<not> isCameraMoving v then v
         else
           (let v1 = v\<lparr>occlusionFrameCounter := occlusionFrameCounter v + 1\<rparr>
            in if occlusionFrameCounter v1 < OCCLUSION_THROTTLE_FRAMES then v1
               else queryLoop env (v1\<lparr>occlusionFrameCounter := 0\<rparr>) 0 (savedRegions v1))))"

definition setSmoothCameraMode :: "Model3DViewer \<Rightarrow> bool \<Rightarrow> Model3DViewer" where
  "setSmoothCameraMode v enabled =
     (let v1 = v\<lparr>smoothCameraMode := enabled, occlusionFrameCounter := 0\<rparr>
      in if enabled \<and> \<not> isCameraMoving v1 then v1\<lparr>needsLabelUpdate := True\<rparr> else v1)"

text \<open>
  The listener of the controls' "change" event, and the callback of the timer that the
  listener restarts.
\<close>

definition onControlsChange :: "Model3DViewer \<Rightarrow> Model3DViewer" where
  "onControlsChange v = v\<lparr>needsLabelUpdate := True, isCameraMoving := True\<rparr>"

definition onCameraStopTimeout :: "Model3DViewer \<Rightarrow> Model3DViewer" where
  "onCameraStopTimeout v =
     (let v1 = v\<lparr>isCameraMoving := False\<rparr>
      in if smoothCameraMode v1 then v1\<lparr>needsLabelUpdate := True\<rparr> else v1)"

text \<open>
  What happens between and at animation frames while real-time mode stays selected:
  camera events, a call \<open>setSmoothCameraMode(false)\<close>, and the occlusion step of a
  frame with the answers the GPU gives in that frame.
\<close>

datatype Event = ControlsChange | CameraStopTimeout | SetRealTimeMode

fun applyEvent :: "Model3DViewer \<Rightarrow> Event \<Rightarrow> Model3DViewer" where
  "applyEvent v ControlsChange = onControlsChange v"
| "applyEvent v CameraStopTimeout = onCameraStopTimeout v"
| "applyEvent v SetRealTimeMode = setSmoothCameraMode v False"

definition applyEvents :: "Model3DViewer \<Rightarrow> Event list \<Rightarrow> Model3DViewer" where
  "applyEvents v evs = foldl applyEvent v evs"

text \<open>A frame starts queries when its occlusion step calls \<open>gl.beginQuery\<close>.\<close>

definition startsQueries :: "Env \<Rightarrow> Model3DViewer \<Rightarrow> bool" where
  "startsQueries env v = (glBegun (runOcclusionQueries env v) \<noteq> glBegun v)"

section \<open>Import validation and region values in the words of the specification\<close>

text \<open>
  A payload region is invalid when its label is missing, not a string or empty, its
  severity or its shape is outside the fixed set, its size is not a number or not
  positive, or its position is not an object with numeric \<open>x\<close>, \<open>y\<close> and
  \<open>z\<close>. \<open>withoutMesh\<close> forgets a region's decal mesh, \<open>regionData\<close> its id
  and its decal mesh, \<open>eraseId\<close> the id a payload region carries.
\<close>

definition isNumber :: "JsValue option \<Rightarrow> bool" where
  "isNumber x = (case x of Some (JNumber n) \<Rightarrow> True | _ \<Rightarrow> False)"

definition wellFormedPosition :: "JsValue \<Rightarrow> bool" where
  "wellFormedPosition p =
     (case p of
        JObject fs \<Rightarrow> isNumber (map_of fs ''x'') \<and> isNumber (map_of fs ''y'')
                      \<and> isNumber (map_of fs ''z'')
      | _ \<Rightarrow> False)"

definition invalidRegion :: "ExportedRegion \<Rightarrow> bool" where
  "invalidRegion r =
     ((case x_label r of JString s \<Rightarrow> s = [] | _ \<Rightarrow> True)
      \<or> x_severity r \<notin> {JString ''high'', JString ''medium'', JString ''low''}
      \<or> x_type r \<notin> {JString ''cube'', JString ''sphere'', JString ''none''}
      \<or> (case x_size r of JNumber n \<Rightarrow> n \<le> 0 | _ \<Rightarrow> True)
      \<or> \<not> wellFormedPosition (x_position r))"

definition withoutMesh :: "SavedHighlightRegion \<Rightarrow> SavedHighlightRegion" where
  "withoutMesh r = r\<lparr>r_decalMesh := None\<rparr>"

definition regionData :: "SavedHighlightRegion \<Rightarrow> SavedHighlightRegion" where
  "regionData r = r\<lparr>r_id := [], r_decalMesh := None\<rparr>"



text \<open>
  Occlusion queries and results are only ever recorded by the occlusion step, which
  does nothing without a WebGL 2 context: in a viewer without one both maps are empty.
\<close>

definition occlusionStateInv :: "Model3DViewer \<Rightarrow> bool" where
  "occlusionStateInv v =
     (gl v \<or> (occlusionQueries v = Map.empty \<and> occlusionResults v = Map.empty))"

text \<open>
  What the label entry of the region at index \<open>k\<close> has to be: id and text of the
  region; not visible with both coordinates zero when there is no camera or the anchor
  projects behind the camera (depth above 1) or outside the range from -1 to 1 in x or
  y; otherwise the pixel position of the projection, and visible exactly when the
  cached occlusion result for index \<open>k\<close> says so, or when there is none.
  \<open>visibleEntries\<close> lists the regions that are not hidden with their indices.
\<close>

definition labelEntryOk ::
  "Model3DViewer \<Rightarrow> nat \<Rightarrow> SavedHighlightRegion \<Rightarrow> LabelPosition \<Rightarrow> bool" where
  "labelEntryOk v k r p =
     (lp_id p = r_id r \<and> lp_text p = r_label r \<and>
      (case camera v of
         None \<Rightarrow> \<not> lp_visible p \<and> lp_x p = 0 \<and> lp_y p = 0
       | Some project \<Rightarrow>
          (let n = project (r_position r)
           in if vz n > 1 \<or> \<not> (- 1 \<le> vx n \<and> vx n \<le> 1) \<or> \<not> (- 1 \<le> vy n \<and> vy n \<le> 1)
              then \<not> lp_visible p \<and> lp_x p = 0 \<and> lp_y p = 0
              else lp_visible p = (case occlusionResults v k of None \<Rightarrow> True | Some b \<Rightarrow> b)
                   \<and> lp_x p = (vx n + 1) / 2 * dimsWidth v
                   \<and> lp_y p = (1 - vy n) / 2 * dimsHeight v)))"

definition visibleEntries ::
  "Model3DViewer \<Rightarrow> (nat \<times> SavedHighlightRegion) list" where
  "visibleEntries v =
     filter (\<lambda>(k, r). r_id r \<notin> hiddenRegionIds v)
       (zip [0 ..< length (savedRegions v)] (savedRegions v))"

section \<open>Example states\<close>

text \<open>
  A store with a hidden cube, a point-shaped region, a sphere and a cube that all
  surround the origin.
\<close>

definition overlapStore :: Model3DViewer where
  "overlapStore = (initialViewer 500 500 True)\<lparr>savedRegions :=
      [plainRegion ''hidden'' (vec 0 0 0) 4 Cube Low ''h'',
       plainRegion ''point'' (vec 0 0 0) 4 NoneShape Low ''p'',
       plainRegion ''ball'' (vec 0 0 0) 4 Sphere Medium ''b'',
       plainRegion ''cube'' (vec 0 0 0) 2 Cube High ''c''],
     hiddenRegionIds := {''hidden''}\<rparr>"

text \<open>
  An environment whose \<open>k\<close>-th UUID is \<open>k + 1\<close> letters u and in which every GPU
  and decal request succeeds; and a viewer with a loaded model whose placement preview
  is visible at a point, with sphere shape and high severity selected.
\<close>

definition exampleEnv :: Env where
  "exampleEnv =
     \<lparr> randomUUID = (\<lambda>n. replicate (Suc n) CHR ''u''), createQueryOk = (\<lambda>i. True),
       queryResultAvailable = (\<lambda>q. True), queryResult = (\<lambda>q. 1),
       raycastMesh = (\<lambda>p. Some 0), decalGeometryOk = (\<lambda>p n s t m. True) \<rparr>"

definition placingViewer :: Model3DViewer where
  "placingViewer = (initialViewer 500 500 True)
     \<lparr>highlightShape := Some (vec 1 2 3), shapeVisible := True, currentModel := True,
      shapeType := Sphere, currentSeverity := High\<rparr>"


text \<open>A label with a leading space and a trailing tab and line feed.\<close>

definition paddedLabel :: string where
  "paddedLabel = CHR 0x20 # ''Scratch'' @ [CHR 0x09, CHR 0x0A]"

text \<open>
  Payload regions with a given id, label and size; a store of two regions; a valid batch
  of three, one of which carries the id of a stored region; a batch whose second region
  has a negative size; and the two-region store after \<open>updateRegion\<close> has set the
  first label to the empty string.
\<close>

definition payloadRegion :: "string \<Rightarrow> string \<Rightarrow> JsValue \<Rightarrow> ExportedRegion" where
  "payloadRegion i l s =
     \<lparr> x_id = i, x_label = JString l, x_severity = JString ''high'',
       x_type = JString ''cube'', x_size = s, x_position = xyz (vec 0 0 0),
       x_defectData = None, x_cameraPosition = None, x_cameraTarget = None,
       x_normal = None, x_decalTextureId = None, x_notes = None, x_evidence = None \<rparr>"

definition twoRegionStore :: Model3DViewer where
  "twoRegionStore = (initialViewer 500 500 True)\<lparr>savedRegions :=
      [plainRegion ''old1'' (vec 0 0 0) 1 Cube High ''a'',
       plainRegion ''old2'' (vec 1 1 1) 1 Sphere Low ''b'']\<rparr>"

definition threeRegionPayload :: RegionsExportData where
  "threeRegionPayload =
     \<lparr> x_version = JNumber 1, x_exportedAt = ''t'',
       x_regions = Some [payloadRegion ''old1'' ''p'' (JNumber 1),
                         payloadRegion ''n2'' ''q'' (JNumber 2),
                         payloadRegion ''n3'' ''r'' (JNumber 3)] \<rparr>"

definition negativeSizePayload :: RegionsExportData where
  "negativeSizePayload =
     \<lparr> x_version = JNumber 1, x_exportedAt = ''t'',
       x_regions = Some [payloadRegion ''n1'' ''p'' (JNumber 1),
                         payloadRegion ''n2'' ''q'' (JNumber (- 1))] \<rparr>"

definition emptyLabelStore :: Model3DViewer where
  "emptyLabelStore =
     snd (updateRegion exampleEnv twoRegionStore ''old1'' (noUpdates\<lparr>u_label := Some []\<rparr>))"

text \<open>
  A store whose second region owns decal mesh 7, which is in the scene, with occlusion
  queries in flight for both regions and a cached result for the second.
\<close>

definition decalStore :: Model3DViewer where
  "decalStore = (initialViewer 500 500 True)
     \<lparr>savedRegions :=
        [plainRegion ''plain'' (vec 0 0 0) 1 Cube High ''a'',
         (plainRegion ''decal'' (vec 1 1 1) 1 Sphere Low ''b'')
           \<lparr>r_normal := Some (vec 0 0 1), r_decalTextureId := Some Heavy,
            r_decalMesh := Some 7\<rparr>],
      sceneDecals := [7], meshesCreated := 8,
      occlusionQueries := [0 \<mapsto> 0, 1 \<mapsto> 1], occlusionResults := [1 \<mapsto> False],
      queriesCreated := 2\<rparr>"

text \<open>
  A viewer whose camera maps world coordinates to device coordinates unchanged, with a
  region in view, one behind the camera, one outside the viewport, a hidden one, and
  one in view with a cached occlusion result "not visible"; and the label list
  expected for it.
\<close>

definition labelStore :: Model3DViewer where
  "labelStore = (initialViewer 500 500 True)
     \<lparr>camera := Some (\<lambda>p. p),
      savedRegions :=
        [plainRegion ''centre'' (vec 0 0 0) 1 Cube High ''a'',
         plainRegion ''behind'' (vec 0 0 2) 1 Cube Medium ''b'',
         plainRegion ''aside'' (vec 2 0 0) 1 Sphere Low ''c'',
         plainRegion ''hidden'' (vec 0 0 0) 1 Cube Low ''d'',
         plainRegion ''occluded'' (vec 1 (- 1) 0) 1 Cube Low ''e''],
      hiddenRegionIds := {''hidden''},
      occlusionResults := [4 \<mapsto> False]\<rparr>"

definition labelList :: "LabelPosition list" where
  "labelList =
     [\<lparr>lp_id = ''centre'', lp_text = ''a'', lp_x = 250, lp_y = 250, lp_visible = True,
       lp_color = ''#e53935'', lp_severity = High\<rparr>,
      \<lparr>lp_id = ''behind'', lp_text = ''b'', lp_x = 0, lp_y = 0, lp_visible = False,
       lp_color = ''#ff9800'', lp_severity = Medium\<rparr>,
      \<lparr>lp_id = ''aside'', lp_text = ''c'', lp_x = 0, lp_y = 0, lp_visible = False,
       lp_color = ''#43a047'', lp_severity = Low\<rparr>,
      \<lparr>lp_id = ''occluded'', lp_text = ''e'', lp_x = 500, lp_y = 500, lp_visible = False,
       lp_color = ''#43a047'', lp_severity = Low\<rparr>]"

text \<open>
  A viewer in real-time mode with one saved region, the camera moving, and two throttled
  frames already counted.
\<close>

definition realTimeMoving :: Model3DViewer where
  "realTimeMoving = (initialViewer 500 500 True)
     \<lparr>camera := Some (\<lambda>p. p),
      savedRegions := [plainRegion ''r'' (vec 0 0 0) 1 Cube High ''a''],
      isCameraMoving := True, occlusionFrameCounter := 2\<rparr>"

section \<open>Properties of findRegionAtPoint\<close>

lemma loop_step_candidate:
  "findRegionAtPoint_loop (hiddenRegionIds v) (r # rs) p =
     (if candidate v p r then Some (r_id r)
      else findRegionAtPoint_loop (hiddenRegionIds v) rs p)"
  by (cases "r_type r")
     (simp_all add: candidate_def regionContains_def sub_def length3_def power2_eq_square Let_def)

lemma loop_None_iff:
  "findRegionAtPoint_loop (hiddenRegionIds v) rs p = None \<longleftrightarrow> (\<forall>r\<in>set rs. \<not> candidate v p r)"
  by (induction rs) (simp_all add: loop_step_candidate del: findRegionAtPoint_loop.simps(2))

lemma loop_Some_first:
  "findRegionAtPoint_loop (hiddenRegionIds v) rs p = Some i \<Longrightarrow>
     \<exists>k<length rs. candidate v p (rs ! k) \<and> r_id (rs ! k) = i
        \<and> (\<forall>j<k. \<not> candidate v p (rs ! j))"
proof (induction rs)
  case Nil
  then show ?case by simp
next
  case (Cons r rs)
  show ?case
  proof (cases "candidate v p r")
    case True
    with Cons.prems have "r_id r = i"
      by (simp add: loop_step_candidate del: findRegionAtPoint_loop.simps(2))
    with True show ?thesis by (intro exI[of _ 0]) simp
  next
    case False
    with Cons.prems have "findRegionAtPoint_loop (hiddenRegionIds v) rs p = Some i"
      by (simp add: loop_step_candidate del: findRegionAtPoint_loop.simps(2))
    from Cons.IH[OF this] obtain k where k: "k < length rs" "candidate v p (rs ! k)"
      "r_id (rs ! k) = i" "\<forall>j<k. \<not> candidate v p (rs ! j)" by blast
    have "\<forall>j<Suc k. \<not> candidate v p ((r # rs) ! j)"
      using False k(4) by (auto simp: less_Suc_eq_0_disj)
    with k show ?thesis by (intro exI[of _ "Suc k"]) simp
  qed
qed

lemma sqrt_less_pos: "0 < y \<Longrightarrow> sqrt x < y \<longleftrightarrow> x < y * y"
proof -
  assume y: "0 < y"
  have "sqrt x < sqrt (y * y) \<longleftrightarrow> x < y * y" by (rule real_sqrt_less_iff)
  moreover have "sqrt (y * y) = y" using y by simp
  ultimately show ?thesis by simp
qed

lemma findRegionAtPoint_iff_candidate:
  "(\<exists>i. findRegionAtPoint v p = Some i) \<longleftrightarrow> (\<exists>r\<in>set (savedRegions v). candidate v p r)"
proof -
  have "(\<exists>i. findRegionAtPoint v p = Some i) \<longleftrightarrow> findRegionAtPoint v p \<noteq> None"
    by auto
  also have "\<dots> \<longleftrightarrow> (\<exists>r\<in>set (savedRegions v). candidate v p r)"
    unfolding findRegionAtPoint_def by (simp add: loop_None_iff)
  finally show ?thesis .
qed

text \<open>
  Claim C1. \<open>findRegionAtPoint\<close> returns an id exactly when some saved region that is
  not hidden and not point-shaped contains the point under its cube or sphere test, and
  the id returned is that of the first such region in store order. In particular a
  store holding one cube at the origin with size 2 yields the cube's id at
  (0.9, 0.9, 0.9) and nothing at (1.1, 0, 0).
\<close>

theorem findRegionAtPoint_first_candidate:
  "((\<exists>i. findRegionAtPoint v p = Some i) \<longleftrightarrow> (\<exists>r\<in>set (savedRegions v). candidate v p r))
   \<and> (\<forall>i. findRegionAtPoint v p = Some i \<longrightarrow>
        (\<exists>k<length (savedRegions v).
           candidate v p (savedRegions v ! k) \<and> r_id (savedRegions v ! k) = i
           \<and> (\<forall>j<k. \<not> candidate v p (savedRegions v ! j))))
   \<and> (\<forall>w h g i sev l.
        findRegionAtPoint
          ((initialViewer w h g)\<lparr>savedRegions := [plainRegion i (vec 0 0 0) 2 Cube sev l]\<rparr>)
          (vec 0.9 0.9 0.9) = Some i
        \<and> findRegionAtPoint
          ((initialViewer w h g)\<lparr>savedRegions := [plainRegion i (vec 0 0 0) 2 Cube sev l]\<rparr>)
          (vec 1.1 0 0) = None)"
proof -
  have first: "\<forall>i. findRegionAtPoint v p = Some i \<longrightarrow>
        (\<exists>k<length (savedRegions v).
           candidate v p (savedRegions v ! k) \<and> r_id (savedRegions v ! k) = i
           \<and> (\<forall>j<k. \<not> candidate v p (savedRegions v ! j)))"
    using loop_Some_first[of v "savedRegions v" p] unfolding findRegionAtPoint_def by blast
  have scenario: "\<forall>w h g i sev l.
        findRegionAtPoint
          ((initialViewer w h g)\<lparr>savedRegions := [plainRegion i (vec 0 0 0) 2 Cube sev l]\<rparr>)
          (vec 0.9 0.9 0.9) = Some i
        \<and> findRegionAtPoint
          ((initialViewer w h g)\<lparr>savedRegions := [plainRegion i (vec 0 0 0) 2 Cube sev l]\<rparr>)
          (vec 1.1 0 0) = None"
    by (simp add: findRegionAtPoint_def initialViewer_def plainRegion_def vec_def sub_def)
  show ?thesis using findRegionAtPoint_iff_candidate[of v p] first scenario by blast
qed

theorem findRegionAtPoint_first_candidate_witness:
  "findRegionAtPoint overlapStore (vec 0.9 0 0) = Some ''ball''
   \<and> (\<exists>r\<in>set (savedRegions overlapStore). candidate overlapStore (vec 0.9 0 0) r)
   \<and> candidate overlapStore (vec 0.9 0 0) (savedRegions overlapStore ! 2)
   \<and> candidate overlapStore (vec 0.9 0 0) (savedRegions overlapStore ! 3)
   \<and> \<not> candidate overlapStore (vec 0.9 0 0) (savedRegions overlapStore ! 0)
   \<and> \<not> candidate overlapStore (vec 0.9 0 0) (savedRegions overlapStore ! 1)"
proof -
  have f: "findRegionAtPoint overlapStore (vec 0.9 0 0) = Some ''ball''"
    by (simp add: overlapStore_def findRegionAtPoint_def initialViewer_def plainRegion_def
        vec_def sub_def length3_def sqrt_less_pos)
  have c: "candidate overlapStore (vec 0.9 0 0) (savedRegions overlapStore ! 2)"
     "candidate overlapStore (vec 0.9 0 0) (savedRegions overlapStore ! 3)"
     "\<not> candidate overlapStore (vec 0.9 0 0) (savedRegions overlapStore ! 0)"
     "\<not> candidate overlapStore (vec 0.9 0 0) (savedRegions overlapStore ! 1)"
    by (simp_all add: overlapStore_def candidate_def regionContains_def initialViewer_def
        plainRegion_def vec_def sqrt_less_pos)
  from findRegionAtPoint_first_candidate[of overlapStore "vec 0.9 0 0"] f
  have "\<exists>r\<in>set (savedRegions overlapStore). candidate overlapStore (vec 0.9 0 0) r"
    by blast
  with f c show ?thesis by simp
qed

section \<open>Properties of saveCurrentRegion\<close>

lemma rev_dropWhile_takeWhile:
  "rev (dropWhile P (rev xs)) @ rev (takeWhile P (rev xs)) = xs"
proof -
  have "rev (takeWhile P (rev xs) @ dropWhile P (rev xs)) = xs" by simp
  then show ?thesis by (simp only: rev_append)
qed

lemma trim_decomp:
  "\<exists>pre post. s = pre @ trim s @ post \<and> (\<forall>c\<in>set pre. isWhiteSpace c)
      \<and> (\<forall>c\<in>set post. isWhiteSpace c)"
proof -
  define t where "t = dropWhile isWhiteSpace s"
  define post where "post = rev (takeWhile isWhiteSpace (rev t))"
  have t: "t = trim s @ post"
    using rev_dropWhile_takeWhile[of isWhiteSpace t] by (simp add: trim_def t_def post_def)
  have s: "s = takeWhile isWhiteSpace s @ t" by (simp add: t_def)
  have p1: "\<forall>c\<in>set (takeWhile isWhiteSpace s). isWhiteSpace c"
    by (auto dest: set_takeWhileD)
  have p2: "\<forall>c\<in>set post. isWhiteSpace c"
    by (auto simp: post_def dest: set_takeWhileD)
  from s t have "s = takeWhile isWhiteSpace s @ trim s @ post" by simp
  with p1 p2 show ?thesis by blast
qed

lemma trim_ends:
  assumes "trim s \<noteq> []"
  shows "\<not> isWhiteSpace (hd (trim s)) \<and> \<not> isWhiteSpace (last (trim s))"
proof -
  define t where "t = dropWhile isWhiteSpace s"
  have tr: "trim s = rev (dropWhile isWhiteSpace (rev t))" by (simp add: trim_def t_def)
  with assms have ne: "dropWhile isWhiteSpace (rev t) \<noteq> []" by simp
  have "last (trim s) = hd (dropWhile isWhiteSpace (rev t))"
    using ne by (simp add: tr last_rev)
  then have l: "\<not> isWhiteSpace (last (trim s))" using ne hd_dropWhile by metis
  have "t = trim s @ rev (takeWhile isWhiteSpace (rev t))"
    using rev_dropWhile_takeWhile[of isWhiteSpace t] by (simp add: tr)
  then have "hd t = hd (trim s)" and "t \<noteq> []" using assms by (metis hd_append2, auto)
  then have "\<not> isWhiteSpace (hd (trim s))" using hd_dropWhile[of isWhiteSpace s] by (simp add: t_def)
  with l show ?thesis by simp
qed

lemma saveCurrentRegion_rejects:
  "highlightShape v = None \<or> \<not> shapeVisible v \<or> trim label = [] \<Longrightarrow>
     saveCurrentRegion env v label dd cp ct n dt tgt = (None, v)"
  by (auto simp: saveCurrentRegion_def split: option.splits)

lemma saveCurrentRegion_success:
  assumes "highlightShape v = Some pos" "shapeVisible v" "trim label \<noteq> []"
  shows "\<exists>mesh v'. saveCurrentRegion env v label dd cp ct n dt tgt
            = (Some (randomUUID env (uuidsDrawn v)), v')
          \<and> savedRegions v' = savedRegions v @
              [\<lparr> r_id = randomUUID env (uuidsDrawn v), r_position = pos,
                 r_size = getCurrentShapeSize v, r_type = shapeType v,
                 r_severity = currentSeverity v, r_label = trim label,
                 r_defectData = dd, r_cameraPosition = cp, r_cameraTarget = ct,
                 r_normal = n, r_decalTextureId = dt, r_decalMesh = mesh,
                 r_notes = None, r_evidence = None \<rparr>]"
proof -
  have "label \<noteq> []" using assms(3) by (auto simp: trim_def)
  then show ?thesis using assms
    by (auto simp: saveCurrentRegion_def generateId_def createDecalMesh_def
        invalidateLabelPositions_def getCurrentShapeSize_def Let_def
        split: option.splits prod.splits if_splits)
qed

text \<open>
  Claim C4. \<open>saveCurrentRegion\<close> returns no id and leaves the whole viewer, hence the
  list of saved regions, unchanged whenever there is no preview shape, the preview is
  not visible, or the label is empty after trimming; in every other case it returns the
  id of one new region and the list of saved regions is the old list with exactly that
  region appended.
\<close>

theorem saveCurrentRegion_fails_or_appends:
  "(highlightShape v = None \<or> \<not> shapeVisible v \<or> trim label = [] \<longrightarrow>
      saveCurrentRegion env v label dd cp ct n dt tgt = (None, v))
   \<and> (highlightShape v \<noteq> None \<and> shapeVisible v \<and> trim label \<noteq> [] \<longrightarrow>
        (\<exists>region. fst (saveCurrentRegion env v label dd cp ct n dt tgt) = Some (r_id region)
           \<and> savedRegions (snd (saveCurrentRegion env v label dd cp ct n dt tgt))
               = savedRegions v @ [region]))"
proof (intro conjI impI)
  assume "highlightShape v = None \<or> \<not> shapeVisible v \<or> trim label = []"
  then show "saveCurrentRegion env v label dd cp ct n dt tgt = (None, v)"
    by (rule saveCurrentRegion_rejects)
next
  assume a: "highlightShape v \<noteq> None \<and> shapeVisible v \<and> trim label \<noteq> []"
  then obtain pos where "highlightShape v = Some pos" by auto
  from saveCurrentRegion_success[OF this, of label env dd cp ct n dt tgt] a
  obtain mesh v' where r: "saveCurrentRegion env v label dd cp ct n dt tgt
            = (Some (randomUUID env (uuidsDrawn v)), v')"
     and s: "savedRegions v' = savedRegions v @
              [\<lparr> r_id = randomUUID env (uuidsDrawn v), r_position = pos,
                 r_size = getCurrentShapeSize v, r_type = shapeType v,
                 r_severity = currentSeverity v, r_label = trim label,
                 r_defectData = dd, r_cameraPosition = cp, r_cameraTarget = ct,
                 r_normal = n, r_decalTextureId = dt, r_decalMesh = mesh,
                 r_notes = None, r_evidence = None \<rparr>]"
    by blast
  show "\<exists>region. fst (saveCurrentRegion env v label dd cp ct n dt tgt) = Some (r_id region)
           \<and> savedRegions (snd (saveCurrentRegion env v label dd cp ct n dt tgt))
               = savedRegions v @ [region]"
    unfolding r using s by (intro exI[of _ "\<lparr> r_id = randomUUID env (uuidsDrawn v), r_position = pos,
                 r_size = getCurrentShapeSize v, r_type = shapeType v,
                 r_severity = currentSeverity v, r_label = trim label,
                 r_defectData = dd, r_cameraPosition = cp, r_cameraTarget = ct,
                 r_normal = n, r_decalTextureId = dt, r_decalMesh = mesh,
                 r_notes = None, r_evidence = None \<rparr>"]) simp
qed

theorem saveCurrentRegion_fails_or_appends_witness:
  "saveCurrentRegion exampleEnv placingViewer [CHR 0x20, CHR 0x09, CHR 0x20]
       None None None None None None = (None, placingViewer)
   \<and> saveCurrentRegion exampleEnv (initialViewer 500 500 True) ''Scratch''
       None None None None None None = (None, initialViewer 500 500 True)
   \<and> (\<exists>region. fst (saveCurrentRegion exampleEnv placingViewer ''Scratch''
                       None None None None None None) = Some (r_id region)
         \<and> savedRegions (snd (saveCurrentRegion exampleEnv placingViewer ''Scratch''
                       None None None None None None)) = [region])"
proof -
  have b: "trim [CHR 0x20, CHR 0x09, CHR 0x20] = []"
    by (simp add: trim_def isWhiteSpace_def)
  have s: "trim ''Scratch'' \<noteq> []" by (simp add: trim_def isWhiteSpace_def)
  have h: "highlightShape placingViewer \<noteq> None" "shapeVisible placingViewer"
    "savedRegions placingViewer = []" "highlightShape (initialViewer 500 500 True) = None"
    by (simp_all add: placingViewer_def initialViewer_def)
  show ?thesis
    using saveCurrentRegion_fails_or_appends[of placingViewer "[CHR 0x20, CHR 0x09, CHR 0x20]"
        exampleEnv None None None None None None]
      saveCurrentRegion_fails_or_appends[of "initialViewer 500 500 True" "''Scratch''"
        exampleEnv None None None None None None]
      saveCurrentRegion_fails_or_appends[of placingViewer "''Scratch''"
        exampleEnv None None None None None None]
      b s h by simp
qed

text \<open>
  Claim C10. After a successful \<open>saveCurrentRegion\<close> the region appended last has
  the trimmed label, \<open>getRegions\<close> and \<open>exportRegions\<close> report that label, and
  the trimmed label is the input with a run of white space removed at the front and at
  the back, itself neither starting nor ending with white space.
\<close>

theorem saveCurrentRegion_stores_trimmed_label:
  "fst (saveCurrentRegion env v label dd cp ct n dt tgt) \<noteq> None \<longrightarrow>
     r_label (last (savedRegions (snd (saveCurrentRegion env v label dd cp ct n dt tgt))))
        = trim label
     \<and> g_label (last (getRegions (snd (saveCurrentRegion env v label dd cp ct n dt tgt))))
        = trim label
     \<and> (\<exists>xs. x_regions (exportRegions now (snd (saveCurrentRegion env v label dd cp ct n dt tgt)))
               = Some xs \<and> x_label (last xs) = JString (trim label))
     \<and> (\<exists>pre post. label = pre @ trim label @ post \<and> (\<forall>c\<in>set pre. isWhiteSpace c)
           \<and> (\<forall>c\<in>set post. isWhiteSpace c))
     \<and> \<not> isWhiteSpace (hd (trim label)) \<and> \<not> isWhiteSpace (last (trim label))"
proof
  assume ok: "fst (saveCurrentRegion env v label dd cp ct n dt tgt) \<noteq> None"
  have "\<not> (highlightShape v = None \<or> \<not> shapeVisible v \<or> trim label = [])"
  proof
    assume "highlightShape v = None \<or> \<not> shapeVisible v \<or> trim label = []"
    from saveCurrentRegion_rejects[OF this, of env dd cp ct n dt tgt] ok
    show False by simp
  qed
  then have g: "highlightShape v \<noteq> None" "shapeVisible v" "trim label \<noteq> []"
    by simp_all
  then obtain pos where "highlightShape v = Some pos" by auto
  from saveCurrentRegion_success[OF this g(2,3), of env dd cp ct n dt tgt]
  obtain mesh v' where r: "saveCurrentRegion env v label dd cp ct n dt tgt
            = (Some (randomUUID env (uuidsDrawn v)), v')"
     and s: "savedRegions v' = savedRegions v @
              [\<lparr> r_id = randomUUID env (uuidsDrawn v), r_position = pos,
                 r_size = getCurrentShapeSize v, r_type = shapeType v,
                 r_severity = currentSeverity v, r_label = trim label,
                 r_defectData = dd, r_cameraPosition = cp, r_cameraTarget = ct,
                 r_normal = n, r_decalTextureId = dt, r_decalMesh = mesh,
                 r_notes = None, r_evidence = None \<rparr>]"
    by blast
  have l1: "r_label (last (savedRegions v')) = trim label" by (simp add: s)
  have l2: "g_label (last (getRegions v')) = trim label"
    by (simp add: getRegions_def s)
  have l3: "\<exists>xs. x_regions (exportRegions now v') = Some xs
              \<and> x_label (last xs) = JString (trim label)"
    by (simp add: exportRegions_def exportRegion_def s)
  show "r_label (last (savedRegions (snd (saveCurrentRegion env v label dd cp ct n dt tgt))))
        = trim label
     \<and> g_label (last (getRegions (snd (saveCurrentRegion env v label dd cp ct n dt tgt))))
        = trim label
     \<and> (\<exists>xs. x_regions (exportRegions now (snd (saveCurrentRegion env v label dd cp ct n dt tgt)))
               = Some xs \<and> x_label (last xs) = JString (trim label))
     \<and> (\<exists>pre post. label = pre @ trim label @ post \<and> (\<forall>c\<in>set pre. isWhiteSpace c)
           \<and> (\<forall>c\<in>set post. isWhiteSpace c))
     \<and> \<not> isWhiteSpace (hd (trim label)) \<and> \<not> isWhiteSpace (last (trim label))"
    unfolding r using l1 l2 l3 trim_decomp[of label] trim_ends[OF g(3)] by simp
qed

theorem saveCurrentRegion_stores_trimmed_label_witness:
  "fst (saveCurrentRegion exampleEnv placingViewer paddedLabel
          None None None None None None) = Some ''u''
   \<and> r_label (last (savedRegions (snd (saveCurrentRegion exampleEnv placingViewer
          paddedLabel None None None None None None)))) = ''Scratch''
   \<and> g_label (last (getRegions (snd (saveCurrentRegion exampleEnv placingViewer
          paddedLabel None None None None None None)))) = ''Scratch''"
proof -
  have t: "trim paddedLabel = ''Scratch''" "paddedLabel \<noteq> []"
    by (simp_all add: paddedLabel_def trim_def isWhiteSpace_def)
  have f: "fst (saveCurrentRegion exampleEnv placingViewer paddedLabel
          None None None None None None) = Some ''u''"
    by (simp add: saveCurrentRegion_def placingViewer_def initialViewer_def t generateId_def
        exampleEnv_def)
  show ?thesis
    using saveCurrentRegion_stores_trimmed_label[of exampleEnv placingViewer
        paddedLabel None None None None None None "''now''"]
      f t by simp
qed

section \<open>Properties of importRegions and exportRegions\<close>

lemma typeof_number_iff: "typeof x = ''number'' \<longleftrightarrow> (\<exists>n. x = JNumber n)"
  by (cases x) simp_all

lemma typeof_string_iff: "typeof x = ''string'' \<longleftrightarrow> (\<exists>s. x = JString s)"
  by (cases x) simp_all

lemma label_check_iff:
  "(\<not> truthy l \<or> typeof l \<noteq> ''string'') \<longleftrightarrow> (case l of JString s \<Rightarrow> s = [] | _ \<Rightarrow> True)"
  by (cases l) simp_all

lemma size_check_iff:
  "(typeof s \<noteq> ''number'' \<or> (case s of JNumber n \<Rightarrow> n \<le> 0 | _ \<Rightarrow> False))
     \<longleftrightarrow> (case s of JNumber n \<Rightarrow> n \<le> 0 | _ \<Rightarrow> True)"
  by (cases s) simp_all

lemma typeof_number_option:
  "typeof (case m of None \<Rightarrow> JUndefined | Some x \<Rightarrow> x) = ''number'' \<longleftrightarrow> isNumber m"
  by (cases m) (auto simp: isNumber_def typeof_number_iff split: JsValue.splits)

lemma position_check_iff:
  "(\<not> truthy p \<or> typeof (getProp p ''x'') \<noteq> ''number''
      \<or> typeof (getProp p ''y'') \<noteq> ''number'' \<or> typeof (getProp p ''z'') \<noteq> ''number'')
     \<longleftrightarrow> \<not> wellFormedPosition p"
  by (cases p) (simp_all add: wellFormedPosition_def typeof_number_option)

lemma validateRegions_Cons:
  "validateRegions (r # rs) =
     (if invalidRegion r then
        Some (if (case x_label r of JString s \<Rightarrow> s = [] | _ \<Rightarrow> True) then LabelRequired
              else if x_severity r \<notin> set validSeverities then InvalidSeverity
              else if x_type r \<notin> set validTypes then InvalidType
              else if (case x_size r of JNumber n \<Rightarrow> n \<le> 0 | _ \<Rightarrow> True) then InvalidSize
              else InvalidPosition)
      else validateRegions rs)"
  unfolding validateRegions.simps label_check_iff size_check_iff position_check_iff
  by (simp add: invalidRegion_def validSeverities_def validTypes_def)

lemma validateRegions_None_iff:
  "validateRegions rs = None \<longleftrightarrow> (\<forall>r\<in>set rs. \<not> invalidRegion r)"
  by (induction rs) (simp_all add: validateRegions_Cons del: validateRegions.simps(2))


text \<open>
  Claim C2. When the payload's version is not the number 1, its regions are not an
  array, or any region of the payload is invalid (label missing, not a string or empty;
  severity or shape outside the fixed set; size not a number or not positive; position
  malformed), \<open>importRegions\<close> throws and the viewer, hence the store, is exactly
  as before, in replace mode and in append mode.
\<close>

theorem importRegions_rejects_whole_batch:
  assumes "x_version d \<noteq> JNumber 1 \<or> x_regions d = None
           \<or> (\<exists>rs. x_regions d = Some rs \<and> (\<exists>r\<in>set rs. invalidRegion r))"
  shows "\<exists>e. importRegions env v d replace = (Inl e, v)"
proof (cases "x_version d \<noteq> JNumber 1")
  case True
  then show ?thesis by (simp add: importRegions_def)
next
  case v1: False
  show ?thesis
  proof (cases "x_regions d")
    case None
    with v1 show ?thesis by (simp add: importRegions_def)
  next
    case (Some rs)
    with assms v1 have "\<exists>r\<in>set rs. invalidRegion r" by simp
    then have "validateRegions rs \<noteq> None" by (simp add: validateRegions_None_iff)
    then obtain e where "validateRegions rs = Some e" by auto
    with v1 Some show ?thesis by (simp add: importRegions_def)
  qed
qed


theorem importRegions_rejects_whole_batch_witness:
  "snd (importRegions exampleEnv twoRegionStore (threeRegionPayload\<lparr>x_version := JNumber 2\<rparr>) True)
     = twoRegionStore
   \<and> snd (importRegions exampleEnv twoRegionStore negativeSizePayload True) = twoRegionStore
   \<and> length (savedRegions twoRegionStore) = 2"
proof -
  have a: "x_version (threeRegionPayload\<lparr>x_version := JNumber 2\<rparr>) \<noteq> JNumber 1" by simp
  have b: "\<exists>rs. x_regions negativeSizePayload = Some rs \<and> (\<exists>r\<in>set rs. invalidRegion r)"
    by (simp add: negativeSizePayload_def payloadRegion_def invalidRegion_def)
  have c: "length (savedRegions twoRegionStore) = 2" by (simp add: twoRegionStore_def)
  from importRegions_rejects_whole_batch[of "threeRegionPayload\<lparr>x_version := JNumber 2\<rparr>" exampleEnv
      twoRegionStore True] a
  have 1: "snd (importRegions exampleEnv twoRegionStore
        (threeRegionPayload\<lparr>x_version := JNumber 2\<rparr>) True) = twoRegionStore" by auto
  from importRegions_rejects_whole_batch[of negativeSizePayload exampleEnv twoRegionStore True] b
  have 2: "snd (importRegions exampleEnv twoRegionStore negativeSizePayload True) = twoRegionStore"
    by auto
  from 1 2 c show ?thesis by simp
qed

lemma importLoop_regions:
  "savedRegions (importLoop env v rs) =
     savedRegions v @ map2 (\<lambda>k r. importRegion (randomUUID env k) r)
                        [uuidsDrawn v ..< uuidsDrawn v + length rs] rs"
proof (induction rs arbitrary: v)
  case Nil
  then show ?case by simp
next
  case (Cons r rs)
  have u: "[uuidsDrawn v ..< uuidsDrawn v + length (r # rs)]
           = uuidsDrawn v # [Suc (uuidsDrawn v) ..< Suc (uuidsDrawn v) + length rs]"
    by (simp add: upt_rec)
  show ?case
    unfolding u by (simp add: generateId_def Cons.IH)
qed

lemma importLoop_uuidsDrawn:
  "uuidsDrawn (importLoop env v rs) = uuidsDrawn v + length rs"
  by (induction rs arbitrary: v) (simp_all add: generateId_def)

lemma updateDecalMesh_withoutMesh:
  "withoutMesh (fst (updateDecalMesh env v r)) = withoutMesh r"
  by (auto simp: updateDecalMesh_def withoutMesh_def createDecalMesh_def Let_def
      split: option.splits prod.splits if_splits)

lemma recreateStep_withoutMesh:
  "withoutMesh (fst (recreateStep env v r)) = withoutMesh r"
  by (simp add: recreateStep_def updateDecalMesh_withoutMesh split: option.splits)

lemma recreateDecals_Cons:
  "recreateDecals env v (r # rs) =
     (fst (recreateStep env v r) # fst (recreateDecals env (snd (recreateStep env v r)) rs),
      snd (recreateDecals env (snd (recreateStep env v r)) rs))"
  by (simp add: case_prod_beta Let_def)

lemma recreateDecals_withoutMesh:
  "map withoutMesh (fst (recreateDecals env v rs)) = map withoutMesh rs"
  by (induction rs arbitrary: v)
     (simp_all add: recreateDecals_Cons recreateStep_withoutMesh del: recreateDecals.simps(2))

lemma importRegions_accepts:
  assumes "x_version d = JNumber 1" "x_regions d = Some rs" "\<forall>r\<in>set rs. \<not> invalidRegion r"
  shows "\<exists>v'. importRegions env v d True = (Inr (length rs), v')
      \<and> map withoutMesh (savedRegions v')
          = map2 (\<lambda>k r. importRegion (randomUUID env k) r)
              [uuidsDrawn v ..< uuidsDrawn v + length rs] rs"
proof -
  define v1 where "v1 = clearOcclusionState (v\<lparr>savedRegions := []\<rparr>)"
  define v2 where "v2 = importLoop env v1 rs"
  have val: "validateRegions rs = None" using assms(3) by (simp add: validateRegions_None_iff)
  have v1: "savedRegions v1 = []" "uuidsDrawn v1 = uuidsDrawn v"
    by (simp_all add: v1_def clearOcclusionState_def)
  have s2: "savedRegions v2 = map2 (\<lambda>k r. importRegion (randomUUID env k) r)
              [uuidsDrawn v ..< uuidsDrawn v + length rs] rs"
    unfolding v2_def importLoop_regions v1 by simp
  have nomesh: "map withoutMesh (savedRegions v2) = savedRegions v2"
    unfolding s2 by (simp add: withoutMesh_def importRegion_def case_prod_beta)
  obtain rs3 v3 where r3: "recreateDecals env v2 (savedRegions v2) = (rs3, v3)"
    by (cases "recreateDecals env v2 (savedRegions v2)") auto
  have "map withoutMesh rs3 = map withoutMesh (savedRegions v2)"
    using recreateDecals_withoutMesh[of env v2 "savedRegions v2"] r3 by simp
  then have m: "map withoutMesh rs3 = savedRegions v2" using nomesh by simp
  have "importRegions env v d True
        = (Inr (length rs), invalidateLabelPositions (v3\<lparr>savedRegions := rs3\<rparr>))"
    using assms(1,2) val r3 by (simp add: importRegions_def v1_def[symmetric] v2_def[symmetric])
  moreover have "map withoutMesh (savedRegions (invalidateLabelPositions (v3\<lparr>savedRegions := rs3\<rparr>)))
      = map2 (\<lambda>k r. importRegion (randomUUID env k) r)
              [uuidsDrawn v ..< uuidsDrawn v + length rs] rs"
    using m s2 by (simp add: invalidateLabelPositions_def)
  ultimately show ?thesis by blast
qed


lemma map_r_id_import:
  "length ks = length rs \<Longrightarrow>
     map r_id (map2 (\<lambda>k r. importRegion (f k) r) ks rs) = map f ks"
  by (induction ks rs rule: list_induct2) (simp_all add: importRegion_def)

lemma r_id_withoutMesh: "r_id (withoutMesh r) = r_id r"
  by (simp add: withoutMesh_def)

lemma regionData_withoutMesh: "regionData (withoutMesh r) = regionData r"
  by (simp add: withoutMesh_def regionData_def)





lemma asSeverity_severityString: "asSeverity (JString (severityString s)) = s"
  by (cases s) (simp_all add: asSeverity_def)

lemma asShapeType_shapeString: "asShapeType (JString (shapeString t)) = t"
  by (cases t) (simp_all add: asShapeType_def)

lemma importRegion_exportRegion:
  "importRegion i (exportRegion r) = r\<lparr>r_id := i, r_decalMesh := None\<rparr>"
  by (cases r)
     (simp add: importRegion_def exportRegion_def xyz_def asSeverity_severityString
        asShapeType_shapeString)

lemma exportRegion_valid:
  "r_label r \<noteq> [] \<Longrightarrow> 0 < r_size r \<Longrightarrow> \<not> invalidRegion (exportRegion r)"
  by (cases "r_severity r"; cases "r_type r")
     (simp_all add: invalidRegion_def exportRegion_def xyz_def wellFormedPosition_def
        isNumber_def)

lemma regionData_roundtrip:
  "length ks = length xs \<Longrightarrow>
     map regionData (map2 (\<lambda>k r. importRegion (f k) r) ks (map exportRegion xs))
       = map regionData xs"
  by (induction ks xs rule: list_induct2)
     (simp_all add: importRegion_exportRegion regionData_def)














text \<open>
  Claim C3, amended. For every store in which every region has a non-empty label and a
  positive size, importing the export of that store in replace mode, into any viewer,
  succeeds and yields regions that agree with the exported ones, in order, in every
  field except the id and the decal mesh; the ids are newly drawn UUIDs.
\<close>

theorem export_import_roundtrip:
  assumes "\<forall>r\<in>set (savedRegions v). r_label r \<noteq> [] \<and> 0 < r_size r"
  shows "\<exists>w'. importRegions env w (exportRegions now v) True
                 = (Inr (length (savedRegions v)), w')
     \<and> map regionData (savedRegions w') = map regionData (savedRegions v)
     \<and> map r_id (savedRegions w')
          = map (randomUUID env) [uuidsDrawn w ..< uuidsDrawn w + length (savedRegions v)]"
proof -
  define rs where "rs = map exportRegion (savedRegions v)"
  have a: "x_version (exportRegions now v) = JNumber 1"
    "x_regions (exportRegions now v) = Some rs"
    by (simp_all add: exportRegions_def rs_def)
  have b: "\<forall>r\<in>set rs. \<not> invalidRegion r"
    using assms by (auto simp: rs_def exportRegion_valid)
  have l: "length rs = length (savedRegions v)" by (simp add: rs_def)
  from importRegions_accepts[OF a b, of env w]
  obtain w' where r: "importRegions env w (exportRegions now v) True = (Inr (length rs), w')"
    and m: "map withoutMesh (savedRegions w')
          = map2 (\<lambda>k r. importRegion (randomUUID env k) r)
              [uuidsDrawn w ..< uuidsDrawn w + length rs] rs"
    by blast
  have "map regionData (savedRegions w') = map regionData (map withoutMesh (savedRegions w'))"
    by (simp add: regionData_withoutMesh)
  also have "\<dots> = map regionData (savedRegions v)"
    unfolding m rs_def by (rule regionData_roundtrip) simp
  finally have d: "map regionData (savedRegions w') = map regionData (savedRegions v)" .
  have "map r_id (savedRegions w') = map r_id (map withoutMesh (savedRegions w'))"
    by (simp add: r_id_withoutMesh)
  also have "\<dots> = map (randomUUID env) [uuidsDrawn w ..< uuidsDrawn w + length rs]"
    unfolding m by (rule map_r_id_import) simp
  finally have "map r_id (savedRegions w')
          = map (randomUUID env) [uuidsDrawn w ..< uuidsDrawn w + length rs]" .
  with r d l show ?thesis by auto
qed


theorem export_import_roundtrip_witness:
  "fst (importRegions exampleEnv (initialViewer 300 300 False)
          (exportRegions ''t'' twoRegionStore) True) = Inr 2
   \<and> map regionData (savedRegions (snd (importRegions exampleEnv (initialViewer 300 300 False)
          (exportRegions ''t'' twoRegionStore) True)))
       = map regionData (savedRegions twoRegionStore)
   \<and> map r_id (savedRegions (snd (importRegions exampleEnv (initialViewer 300 300 False)
          (exportRegions ''t'' twoRegionStore) True))) = [''u'', ''uu'']"
proof -
  have h: "\<forall>r\<in>set (savedRegions twoRegionStore). r_label r \<noteq> [] \<and> 0 < r_size r"
    by (simp add: twoRegionStore_def plainRegion_def)
  have u: "uuidsDrawn (initialViewer 300 300 False) = 0" "length (savedRegions twoRegionStore) = 2"
    by (simp_all add: twoRegionStore_def initialViewer_def)
  from export_import_roundtrip[OF h, of exampleEnv "initialViewer 300 300 False" "''t''"]
  obtain w' where r: "importRegions exampleEnv (initialViewer 300 300 False)
          (exportRegions ''t'' twoRegionStore) True = (Inr (length (savedRegions twoRegionStore)), w')"
    and d: "map regionData (savedRegions w') = map regionData (savedRegions twoRegionStore)"
    and k: "map r_id (savedRegions w') = map (randomUUID exampleEnv)
        [uuidsDrawn (initialViewer 300 300 False) ..< uuidsDrawn (initialViewer 300 300 False)
           + length (savedRegions twoRegionStore)]"
    by blast
  have "map r_id (savedRegions w') = [''u'', ''uu'']"
    using k by (simp add: u exampleEnv_def upt_rec)
  with r d u show ?thesis by simp
qed

text \<open>
  Claim C3 as stated, for every store, fails for a store that holds a region with an
  empty label, which \<open>updateRegion\<close> produces: the import of its export is
  rejected and the importing viewer holds no region.
\<close>

lemma emptyLabelStore_regions:
  "savedRegions emptyLabelStore =
      [plainRegion ''old1'' (vec 0 0 0) 1 Cube High [],
       plainRegion ''old2'' (vec 1 1 1) 1 Sphere Low ''b'']"
  by (simp add: emptyLabelStore_def updateRegion_def twoRegionStore_def noUpdates_def
      plainRegion_def invalidateLabelPositions_def)

theorem export_import_roundtrip_counterexample:
  "fst (importRegions exampleEnv (initialViewer 500 500 True)
          (exportRegions ''t'' emptyLabelStore) True) = Inl LabelRequired
   \<and> map regionData (savedRegions (snd (importRegions exampleEnv (initialViewer 500 500 True)
          (exportRegions ''t'' emptyLabelStore) True)))
       \<noteq> map regionData (savedRegions emptyLabelStore)"
  by (simp add: importRegions_def exportRegions_def emptyLabelStore_regions exportRegion_def
      plainRegion_def initialViewer_def)

section \<open>Properties of deleteRegion and updateRegion\<close>

lemma findIndex_Some:
  "findIndex P xs = Some i \<Longrightarrow> i < length xs \<and> P (xs ! i) \<and> (\<forall>j<i. \<not> P (xs ! j))"
proof (induction xs arbitrary: i)
  case Nil
  then show ?case by simp
next
  case (Cons x xs)
  show ?case
  proof (cases "P x")
    case True
    with Cons.prems show ?thesis by simp
  next
    case False
    with Cons.prems obtain k where k: "findIndex P xs = Some k" "i = Suc k"
      by (auto split: option.splits)
    from Cons.IH[OF k(1)] False show ?thesis
      by (auto simp: k(2) less_Suc_eq_0_disj)
  qed
qed

lemma findIndex_None_iff: "findIndex P xs = None \<longleftrightarrow> (\<forall>x\<in>set xs. \<not> P x)"
  by (induction xs) (auto split: option.splits)

lemma deleteRegion_unknown:
  "rid \<notin> r_id ` set (savedRegions v) \<Longrightarrow> deleteRegion v rid = (False, v)"
proof -
  assume "rid \<notin> r_id ` set (savedRegions v)"
  then have "findIndex (\<lambda>r. r_id r = rid) (savedRegions v) = None"
    by (auto simp: findIndex_None_iff)
  then show ?thesis by (simp add: deleteRegion_def)
qed

lemma deleteRegion_found:
  assumes "findIndex (\<lambda>r. r_id r = rid) (savedRegions v) = Some k"
  shows "fst (deleteRegion v rid) = True"
    and "savedRegions (snd (deleteRegion v rid)) = splice1 k (savedRegions v)"
    and "r_decalMesh (savedRegions v ! k) = Some m \<Longrightarrow>
           m \<notin> set (sceneDecals (snd (deleteRegion v rid)))
           \<and> m \<in> set (disposedMeshes (snd (deleteRegion v rid)))"
    and "occlusionStateInv v \<Longrightarrow>
           occlusionQueries (snd (deleteRegion v rid)) = Map.empty
           \<and> occlusionResults (snd (deleteRegion v rid)) = Map.empty"
  using assms
  by (auto simp: deleteRegion_def Let_def disposeDecal_def clearOcclusionState_def
      invalidateLabelPositions_def occlusionStateInv_def split: option.splits)

lemma splice1_not_in:
  assumes "distinct (map f xs)" "k < length xs"
  shows "f (xs ! k) \<notin> f ` set (splice1 k xs)"
proof -
  have "xs = take k xs @ xs ! k # drop (Suc k) xs"
    using assms(2) by (simp add: id_take_nth_drop)
  then have "distinct (map f (take k xs @ xs ! k # drop (Suc k) xs))"
    using assms(1) by simp
  then show ?thesis by (auto simp: splice1_def)
qed

lemma getRegions_ids: "g_id ` set (getRegions v) = r_id ` set (savedRegions v)"
  by (auto simp: getRegions_def image_iff)

lemma getRegions_splice:
  "savedRegions w = splice1 k (savedRegions v) \<Longrightarrow> getRegions w = splice1 k (getRegions v)"
  by (simp add: getRegions_def splice1_def take_map drop_map)

text \<open>
  Claim C9. In a viewer whose occlusion maps are empty unless it has a WebGL 2 context,
  \<open>deleteRegion\<close> with an id that is present returns true, removes the first region
  with that id from the store, so that \<open>getRegions\<close> afterwards is the earlier
  output without that entry and, ids being unique, no longer lists the id; a decal mesh
  the region owns is removed from the scene and disposed; and the maps of occlusion
  queries and cached results are empty afterwards. With an id that is not present it
  returns false and the viewer is unchanged.
\<close>

theorem deleteRegion_removes_and_releases:
  assumes "occlusionStateInv v"
  shows "(rid \<in> r_id ` set (savedRegions v) \<longrightarrow>
           (\<exists>k<length (savedRegions v).
              r_id (savedRegions v ! k) = rid
              \<and> (\<forall>j<k. r_id (savedRegions v ! j) \<noteq> rid)
              \<and> fst (deleteRegion v rid) = True
              \<and> getRegions (snd (deleteRegion v rid))
                  = take k (getRegions v) @ drop (Suc k) (getRegions v)
              \<and> (distinct (map r_id (savedRegions v))
                   \<longrightarrow> rid \<notin> g_id ` set (getRegions (snd (deleteRegion v rid))))
              \<and> (\<forall>m. r_decalMesh (savedRegions v ! k) = Some m \<longrightarrow>
                    m \<notin> set (sceneDecals (snd (deleteRegion v rid)))
                    \<and> m \<in> set (disposedMeshes (snd (deleteRegion v rid))))
              \<and> occlusionQueries (snd (deleteRegion v rid)) = Map.empty
              \<and> occlusionResults (snd (deleteRegion v rid)) = Map.empty))
       \<and> (rid \<notin> r_id ` set (savedRegions v) \<longrightarrow> deleteRegion v rid = (False, v))"
proof (intro conjI impI)
  assume "rid \<in> r_id ` set (savedRegions v)"
  then have "findIndex (\<lambda>r. r_id r = rid) (savedRegions v) \<noteq> None"
    by (auto simp: findIndex_None_iff)
  then obtain k where k: "findIndex (\<lambda>r. r_id r = rid) (savedRegions v) = Some k" by auto
  note f = findIndex_Some[OF k]
  note d = deleteRegion_found[OF k]
  have g: "getRegions (snd (deleteRegion v rid))
                  = take k (getRegions v) @ drop (Suc k) (getRegions v)"
    using getRegions_splice[OF d(2)] by (simp add: splice1_def)
  have u: "distinct (map r_id (savedRegions v))
            \<longrightarrow> rid \<notin> g_id ` set (getRegions (snd (deleteRegion v rid)))"
    using splice1_not_in[of r_id "savedRegions v" k] f d(2)
    by (simp add: getRegions_ids)
  show "\<exists>k<length (savedRegions v).
              r_id (savedRegions v ! k) = rid
              \<and> (\<forall>j<k. r_id (savedRegions v ! j) \<noteq> rid)
              \<and> fst (deleteRegion v rid) = True
              \<and> getRegions (snd (deleteRegion v rid))
                  = take k (getRegions v) @ drop (Suc k) (getRegions v)
              \<and> (distinct (map r_id (savedRegions v))
                   \<longrightarrow> rid \<notin> g_id ` set (getRegions (snd (deleteRegion v rid))))
              \<and> (\<forall>m. r_decalMesh (savedRegions v ! k) = Some m \<longrightarrow>
                    m \<notin> set (sceneDecals (snd (deleteRegion v rid)))
                    \<and> m \<in> set (disposedMeshes (snd (deleteRegion v rid))))
              \<and> occlusionQueries (snd (deleteRegion v rid)) = Map.empty
              \<and> occlusionResults (snd (deleteRegion v rid)) = Map.empty"
    using f d(1) g u d(3) d(4)[OF assms] by (intro exI[of _ k]) simp
next
  assume "rid \<notin> r_id ` set (savedRegions v)"
  then show "deleteRegion v rid = (False, v)" by (rule deleteRegion_unknown)
qed

theorem deleteRegion_removes_and_releases_witness:
  "occlusionStateInv decalStore
   \<and> fst (deleteRegion decalStore ''decal'') = True
   \<and> map g_id (getRegions decalStore) = [''plain'', ''decal'']
   \<and> map g_id (getRegions (snd (deleteRegion decalStore ''decal''))) = [''plain'']
   \<and> sceneDecals decalStore = [7]
   \<and> sceneDecals (snd (deleteRegion decalStore ''decal'')) = []
   \<and> disposedMeshes (snd (deleteRegion decalStore ''decal'')) = [7]
   \<and> occlusionQueries (snd (deleteRegion decalStore ''decal'')) = Map.empty
   \<and> occlusionResults (snd (deleteRegion decalStore ''decal'')) = Map.empty
   \<and> deleteRegion decalStore ''absent'' = (False, decalStore)"
proof -
  have i: "occlusionStateInv decalStore"
    by (simp add: occlusionStateInv_def decalStore_def initialViewer_def)
  have a: "''decal'' \<in> r_id ` set (savedRegions decalStore)"
    "''absent'' \<notin> r_id ` set (savedRegions decalStore)"
    by (simp_all add: decalStore_def plainRegion_def)
  have e: "fst (deleteRegion decalStore ''decal'') = True"
    "map g_id (getRegions decalStore) = [''plain'', ''decal'']"
    "map g_id (getRegions (snd (deleteRegion decalStore ''decal''))) = [''plain'']"
    "sceneDecals decalStore = [7]"
    "sceneDecals (snd (deleteRegion decalStore ''decal'')) = []"
    "disposedMeshes (snd (deleteRegion decalStore ''decal'')) = [7]"
    by (simp_all add: deleteRegion_def decalStore_def initialViewer_def plainRegion_def
        getRegions_def splice1_def disposeDecal_def clearOcclusionState_def
        invalidateLabelPositions_def)
  from deleteRegion_removes_and_releases[OF i, of "''decal''"] a(1)
  have o: "occlusionQueries (snd (deleteRegion decalStore ''decal'')) = Map.empty
   \<and> occlusionResults (snd (deleteRegion decalStore ''decal'')) = Map.empty"
    by blast
  from deleteRegion_removes_and_releases[OF i, of "''absent''"] a(2)
  have n: "deleteRegion decalStore ''absent'' = (False, decalStore)" by blast
  from i e o n show ?thesis by simp
qed

text \<open>
  Claim C5 fails on \<open>updateRegion\<close>, which stores the size it is given without the
  check that \<open>importRegions\<close> makes: in a store whose regions have size 1, the patch
  \<open>{size: -1}\<close> is accepted and leaves a region of size \<open>-1\<close>.
\<close>

theorem updateRegion_stores_nonpositive_size:
  "map r_size (savedRegions twoRegionStore) = [1, 1]
   \<and> fst (updateRegion exampleEnv twoRegionStore ''old1'' (noUpdates\<lparr>u_size := Some (- 1)\<rparr>))
        = True
   \<and> map r_size (savedRegions (snd (updateRegion exampleEnv twoRegionStore ''old1''
        (noUpdates\<lparr>u_size := Some (- 1)\<rparr>)))) = [- 1, 1]"
  by (simp add: updateRegion_def twoRegionStore_def noUpdates_def plainRegion_def
      invalidateLabelPositions_def initialViewer_def)

theorem updateRegion_stores_nonpositive_size_witness:
  "\<exists>r\<in>set (savedRegions (snd (updateRegion exampleEnv twoRegionStore ''old1''
        (noUpdates\<lparr>u_size := Some (- 1)\<rparr>)))). r_size r \<le> 0"
proof -
  from updateRegion_stores_nonpositive_size
  have "map r_size (savedRegions (snd (updateRegion exampleEnv twoRegionStore ''old1''
        (noUpdates\<lparr>u_size := Some (- 1)\<rparr>)))) = [- 1, 1]"
    by simp
  then have "- 1 \<in> r_size ` set (savedRegions (snd (updateRegion exampleEnv twoRegionStore
        ''old1'' (noUpdates\<lparr>u_size := Some (- 1)\<rparr>))))"
    by (metis list.set_intros(1) set_map)
  then obtain r where r: "r \<in> set (savedRegions (snd (updateRegion exampleEnv twoRegionStore
        ''old1'' (noUpdates\<lparr>u_size := Some (- 1)\<rparr>))))" and s: "r_size r = - 1"
    by (auto simp: image_iff)
  from s have "r_size r \<le> 0" by simp
  with r show ?thesis by blast
qed

section \<open>Properties of getLabelPositions\<close>

lemma real_is_double: "\<exists>a::real. x = a * 2"
  by (rule exI[of _ "x / 2"]) simp

lemma newLabelPosition_ok: "labelEntryOk v k r (newLabelPosition v k r)"
proof (cases "camera v")
  case None
  then show ?thesis
    by (simp add: labelEntryOk_def newLabelPosition_def project3DToScreen_def)
next
  case (Some project)
  define n where "n = project (r_position r)"
  show ?thesis
  proof (cases "vz n > 1 \<or> vx n < - 1 \<or> vx n > 1 \<or> vy n < - 1 \<or> vy n > 1")
    case True
    then have sp: "project3DToScreen v (r_position r) = None"
      by (simp add: project3DToScreen_def Some n_def Let_def)
    from True show ?thesis
      by (auto simp: labelEntryOk_def newLabelPosition_def Some n_def[symmetric] sp)
  next
    case False
    then have sp: "project3DToScreen v (r_position r)
        = Some (((vx n + 1) / 2) * dimsWidth v, ((- vy n + 1) / 2) * dimsHeight v)"
      by (simp add: project3DToScreen_def Some n_def Let_def)
    from False show ?thesis
      by (simp add: labelEntryOk_def newLabelPosition_def Some n_def[symmetric]
          checkPointVisibility_def sp real_is_double)
  qed
qed

lemma labelLoop_positions:
  "fst (labelLoop v i rs acc ch) =
     acc @ map (\<lambda>(k, r). newLabelPosition v k r)
             (filter (\<lambda>(k, r). r_id r \<notin> hiddenRegionIds v) (zip [i ..< i + length rs] rs))"
proof (induction rs arbitrary: i acc ch)
  case Nil
  then show ?case by simp
next
  case (Cons r rs)
  have u: "[i ..< i + length (r # rs)] = i # [Suc i ..< Suc i + length rs]"
    by (simp add: upt_rec)
  show ?case
    unfolding u by (simp add: Cons.IH Let_def)
qed

lemma getLabelPositions_Some:
  "fst (getLabelPositions v) = Some ps \<Longrightarrow>
     ps = map (\<lambda>(k, r). newLabelPosition v k r) (visibleEntries v)"
  using labelLoop_positions[of v 0 "savedRegions v" "[]" False]
  by (auto simp: getLabelPositions_def visibleEntries_def Let_def
      split: if_splits prod.splits)

text \<open>
  Claim C6. When \<open>getLabelPositions\<close> produces a list, the list has one entry for
  every saved region that is not hidden, in store order, and the entry of a region has
  \<open>visible = false\<close> and zero coordinates when its anchor projects behind the camera
  or outside the viewport range (or when there is no camera); otherwise \<open>visible\<close>
  is the cached occlusion result for the region's index in the store, and true when no
  result is cached.
\<close>

theorem getLabelPositions_entries:
  "fst (getLabelPositions v) = Some ps \<longrightarrow>
     list_all2 (\<lambda>p (k, r). labelEntryOk v k r p) ps (visibleEntries v)"
proof
  assume "fst (getLabelPositions v) = Some ps"
  then have "ps = map (\<lambda>(k, r). newLabelPosition v k r) (visibleEntries v)"
    by (rule getLabelPositions_Some)
  then show "list_all2 (\<lambda>p (k, r). labelEntryOk v k r p) ps (visibleEntries v)"
    by (simp add: list_all2_map1 list_all2_same newLabelPosition_ok case_prod_beta)
qed


theorem getLabelPositions_entries_witness:
  "fst (getLabelPositions labelStore) = Some labelList
   \<and> list_all2 (\<lambda>p (k, r). labelEntryOk labelStore k r p) labelList (visibleEntries labelStore)"
proof -
  have e: "fst (getLabelPositions labelStore) = Some labelList"
    by (simp add: getLabelPositions_def labelStore_def labelList_def initialViewer_def
        plainRegion_def vec_def newLabelPosition_def project3DToScreen_def
        checkPointVisibility_def differsFromCached_def Let_def)
  from getLabelPositions_entries[of labelStore labelList] e show ?thesis by simp
qed

section \<open>Properties of the occlusion step\<close>

text \<open>
  The loop leaves the mode, the movement flag, the frame counter and the WebGL context
  alone, so the occlusion step keeps the invariant on the occlusion maps.
\<close>

lemma queryStep_fields:
  "occlusionFrameCounter (queryStep env v i) = occlusionFrameCounter v
   \<and> smoothCameraMode (queryStep env v i) = smoothCameraMode v
   \<and> isCameraMoving (queryStep env v i) = isCameraMoving v
   \<and> gl (queryStep env v i) = gl v"
  by (simp add: queryStep_def Let_def split: option.splits)

lemma queryLoop_fields:
  "occlusionFrameCounter (queryLoop env v i rs) = occlusionFrameCounter v
   \<and> smoothCameraMode (queryLoop env v i rs) = smoothCameraMode v
   \<and> isCameraMoving (queryLoop env v i rs) = isCameraMoving v
   \<and> gl (queryLoop env v i rs) = gl v"
  by (induction rs arbitrary: v i) (simp_all add: queryStep_fields)

lemma runOcclusionQueries_gl: "gl (runOcclusionQueries env v) = gl v"
  by (simp add: runOcclusionQueries_def Let_def queryLoop_fields)

lemma runOcclusionQueries_inv:
  "occlusionStateInv v \<Longrightarrow> occlusionStateInv (runOcclusionQueries env v)"
proof (cases "gl v")
  case True
  then show ?thesis by (simp add: occlusionStateInv_def runOcclusionQueries_gl)
next
  case False
  then have "runOcclusionQueries env v = v" by (simp add: runOcclusionQueries_def)
  then show "occlusionStateInv v \<Longrightarrow> ?thesis" by simp
qed

lemma not_ready_idle:
  "\<not> gl v \<or> \<not> occlusionProgram v \<or> camera v = None \<or> savedRegions v = [] \<Longrightarrow>
     runOcclusionQueries env v = v"
  by (simp add: runOcclusionQueries_def)

lemma smooth_moving_idle:
  "smoothCameraMode v \<Longrightarrow> isCameraMoving v \<Longrightarrow> runOcclusionQueries env v = v"
  by (simp add: runOcclusionQueries_def)

lemma realTime_static_idle:
  "\<not> smoothCameraMode v \<Longrightarrow> \<not> isCameraMoving v \<Longrightarrow> runOcclusionQueries env v = v"
  by (simp add: runOcclusionQueries_def)

lemma realTime_below_threshold:
  assumes "\<not> smoothCameraMode v"
    "occlusionFrameCounter v + 1 < OCCLUSION_THROTTLE_FRAMES"
  shows "\<not> startsQueries env v"
    and "occlusionFrameCounter (runOcclusionQueries env v) \<le> occlusionFrameCounter v + 1"
    and "\<not> smoothCameraMode (runOcclusionQueries env v)"
  using assms by (simp_all add: startsQueries_def runOcclusionQueries_def Let_def)

lemma realTime_start:
  assumes "\<not> smoothCameraMode v" "startsQueries env v"
  shows "isCameraMoving v"
    and "OCCLUSION_THROTTLE_FRAMES \<le> occlusionFrameCounter v + 1"
    and "occlusionFrameCounter (runOcclusionQueries env v) = 0"
    and "\<not> smoothCameraMode (runOcclusionQueries env v)"
proof -
  show m: "isCameraMoving v"
  proof (rule ccontr)
    assume "\<not> isCameraMoving v"
    with assms(1) have "runOcclusionQueries env v = v" by (rule realTime_static_idle)
    with assms(2) show False by (simp add: startsQueries_def)
  qed
  show t: "OCCLUSION_THROTTLE_FRAMES \<le> occlusionFrameCounter v + 1"
    using assms realTime_below_threshold(1)[of v env] by force
  have g: "gl v \<and> occlusionProgram v \<and> camera v \<noteq> None \<and> savedRegions v \<noteq> []"
  proof (rule ccontr)
    assume "\<not> (gl v \<and> occlusionProgram v \<and> camera v \<noteq> None \<and> savedRegions v \<noteq> [])"
    then have "runOcclusionQueries env v = v" by (intro not_ready_idle) blast
    with assms(2) show False by (simp add: startsQueries_def)
  qed
  show "occlusionFrameCounter (runOcclusionQueries env v) = 0"
    using assms(1) m t g by (auto simp: runOcclusionQueries_def Let_def queryLoop_fields)
  show "\<not> smoothCameraMode (runOcclusionQueries env v)"
    using assms(1) m t g by (auto simp: runOcclusionQueries_def Let_def queryLoop_fields)
qed

lemma applyEvent_realTime:
  "\<not> smoothCameraMode v \<Longrightarrow>
     \<not> smoothCameraMode (applyEvent v e)
     \<and> occlusionFrameCounter (applyEvent v e) \<le> occlusionFrameCounter v"
  by (cases e)
     (simp_all add: onControlsChange_def onCameraStopTimeout_def setSmoothCameraMode_def Let_def)

lemma applyEvents_realTime:
  "\<not> smoothCameraMode v \<Longrightarrow>
     \<not> smoothCameraMode (applyEvents v evs)
     \<and> occlusionFrameCounter (applyEvents v evs) \<le> occlusionFrameCounter v"
proof (induction evs arbitrary: v)
  case Nil
  then show ?case by (simp add: applyEvents_def)
next
  case (Cons e evs)
  from applyEvent_realTime[OF Cons.prems, of e]
  have a: "\<not> smoothCameraMode (applyEvent v e)"
    "occlusionFrameCounter (applyEvent v e) \<le> occlusionFrameCounter v" by simp_all
  from Cons.IH[OF a(1)] a(2) show ?case by (simp add: applyEvents_def)
qed

text \<open>
  Claim C8. In smooth mode a frame in which the camera is moving starts no query. In
  real-time mode a frame in which the camera is not moving starts no query; a frame
  that starts queries has the camera moving and is the one that brings the frame
  counter to \<open>OCCLUSION_THROTTLE_FRAMES\<close>, and the next two frames start none,
  whatever camera events or calls \<open>setSmoothCameraMode(false)\<close> come in between
  and whatever the GPU answers: of three consecutive frames at most one starts queries.
\<close>

theorem occlusion_queries_gated:
  "(smoothCameraMode v \<and> isCameraMoving v \<longrightarrow> \<not> startsQueries env v)
   \<and> (\<not> smoothCameraMode v \<and> \<not> isCameraMoving v \<longrightarrow> \<not> startsQueries env v)
   \<and> (\<not> smoothCameraMode v \<and> startsQueries env v \<longrightarrow>
        isCameraMoving v
        \<and> OCCLUSION_THROTTLE_FRAMES \<le> occlusionFrameCounter v + 1
        \<and> \<not> startsQueries env1 (applyEvents (runOcclusionQueries env v) evs1)
        \<and> \<not> startsQueries env2
             (applyEvents
                (runOcclusionQueries env1 (applyEvents (runOcclusionQueries env v) evs1))
                evs2))"
proof (intro conjI impI)
  assume "smoothCameraMode v \<and> isCameraMoving v"
  then show "\<not> startsQueries env v"
    by (simp add: startsQueries_def smooth_moving_idle)
next
  assume "\<not> smoothCameraMode v \<and> \<not> isCameraMoving v"
  then show "\<not> startsQueries env v"
    by (simp add: startsQueries_def realTime_static_idle)
next
  assume a: "\<not> smoothCameraMode v \<and> startsQueries env v"
  then show "isCameraMoving v" using realTime_start(1) by blast
next
  assume a: "\<not> smoothCameraMode v \<and> startsQueries env v"
  then show "OCCLUSION_THROTTLE_FRAMES \<le> occlusionFrameCounter v + 1"
    using realTime_start(2) by blast
next
  assume a: "\<not> smoothCameraMode v \<and> startsQueries env v"
  define w0 where "w0 = runOcclusionQueries env v"
  define w1 where "w1 = applyEvents w0 evs1"
  have w0: "\<not> smoothCameraMode w0" "occlusionFrameCounter w0 = 0"
    using a realTime_start(3,4)[of v env] by (simp_all add: w0_def)
  have w1: "\<not> smoothCameraMode w1" "occlusionFrameCounter w1 = 0"
    using applyEvents_realTime[OF w0(1), of evs1] w0(2) by (simp_all add: w1_def)
  have "occlusionFrameCounter w1 + 1 < OCCLUSION_THROTTLE_FRAMES"
    using w1(2) by (simp add: OCCLUSION_THROTTLE_FRAMES_def)
  from realTime_below_threshold(1)[OF w1(1) this]
  show "\<not> startsQueries env1 (applyEvents (runOcclusionQueries env v) evs1)"
    by (simp add: w1_def w0_def)
next
  assume a: "\<not> smoothCameraMode v \<and> startsQueries env v"
  define w0 where "w0 = runOcclusionQueries env v"
  define w1 where "w1 = applyEvents w0 evs1"
  define w2 where "w2 = applyEvents (runOcclusionQueries env1 w1) evs2"
  have w0: "\<not> smoothCameraMode w0" "occlusionFrameCounter w0 = 0"
    using a realTime_start(3,4)[of v env] by (simp_all add: w0_def)
  have w1: "\<not> smoothCameraMode w1" "occlusionFrameCounter w1 = 0"
    using applyEvents_realTime[OF w0(1), of evs1] w0(2) by (simp_all add: w1_def)
  have b: "occlusionFrameCounter w1 + 1 < OCCLUSION_THROTTLE_FRAMES"
    using w1(2) by (simp add: OCCLUSION_THROTTLE_FRAMES_def)
  note f = realTime_below_threshold(2,3)[OF w1(1) b, of env1]
  have w2: "\<not> smoothCameraMode w2" "occlusionFrameCounter w2 \<le> 1"
    using applyEvents_realTime[OF f(2), of evs2] f(1) w1(2) by (simp_all add: w2_def)
  have "occlusionFrameCounter w2 + 1 < OCCLUSION_THROTTLE_FRAMES"
    using w2(2) by (simp add: OCCLUSION_THROTTLE_FRAMES_def)
  from realTime_below_threshold(1)[OF w2(1) this]
  show "\<not> startsQueries env2
             (applyEvents
                (runOcclusionQueries env1 (applyEvents (runOcclusionQueries env v) evs1))
                evs2)"
    by (simp add: w2_def w1_def w0_def)
qed

theorem occlusion_queries_gated_witness:
  "startsQueries exampleEnv realTimeMoving
   \<and> glBegun (runOcclusionQueries exampleEnv realTimeMoving) = [0]
   \<and> \<not> startsQueries exampleEnv
        (applyEvents (runOcclusionQueries exampleEnv realTimeMoving) [ControlsChange])
   \<and> \<not> startsQueries exampleEnv
        (applyEvents
           (runOcclusionQueries exampleEnv
              (applyEvents (runOcclusionQueries exampleEnv realTimeMoving) [ControlsChange]))
           [ControlsChange])
   \<and> \<not> startsQueries exampleEnv (realTimeMoving\<lparr>isCameraMoving := False\<rparr>)
   \<and> \<not> startsQueries exampleEnv (realTimeMoving\<lparr>smoothCameraMode := True\<rparr>)
   \<and> startsQueries exampleEnv
        (realTimeMoving\<lparr>smoothCameraMode := True, isCameraMoving := False\<rparr>)"
proof -
  have s: "startsQueries exampleEnv realTimeMoving"
    "glBegun (runOcclusionQueries exampleEnv realTimeMoving) = [0]"
    "startsQueries exampleEnv
        (realTimeMoving\<lparr>smoothCameraMode := True, isCameraMoving := False\<rparr>)"
    by (simp_all add: startsQueries_def runOcclusionQueries_def realTimeMoving_def
        initialViewer_def plainRegion_def OCCLUSION_THROTTLE_FRAMES_def queryStep_def
        exampleEnv_def Let_def)
  have h: "\<not> smoothCameraMode realTimeMoving" "isCameraMoving realTimeMoving"
    by (simp_all add: realTimeMoving_def initialViewer_def)
  from occlusion_queries_gated[of realTimeMoving exampleEnv exampleEnv "[ControlsChange]"
      exampleEnv "[ControlsChange]"] s(1) h
  have a: "\<not> startsQueries exampleEnv
        (applyEvents (runOcclusionQueries exampleEnv realTimeMoving) [ControlsChange])"
    "\<not> startsQueries exampleEnv
        (applyEvents
           (runOcclusionQueries exampleEnv
              (applyEvents (runOcclusionQueries exampleEnv realTimeMoving) [ControlsChange]))
           [ControlsChange])"
    by blast+
  from occlusion_queries_gated[of "realTimeMoving\<lparr>isCameraMoving := False\<rparr>" exampleEnv]
    h(1)
  have b: "\<not> startsQueries exampleEnv (realTimeMoving\<lparr>isCameraMoving := False\<rparr>)"
    by simp
  from occlusion_queries_gated[of "realTimeMoving\<lparr>smoothCameraMode := True\<rparr>" exampleEnv]
    h(2)
  have c: "\<not> startsQueries exampleEnv (realTimeMoving\<lparr>smoothCameraMode := True\<rparr>)"
    by simp
  from s a b c show ?thesis by simp
qed

end
